theory Spec2Isabelle
  imports Main "HOL-Library.Sublist"
begin

section \<open>JavaScript strings\<close>

text \<open>
  A JavaScript string is modelled as a \<^typ>\<open>string\<close>: each \<^typ>\<open>char\<close> stands for one
  code unit in the range U+0000 to U+00FF. The operations below are the ones the
  scraper and the server call on strings (\<^verbatim>\<open>startsWith\<close>, \<^verbatim>\<open>endsWith\<close>,
  \<^verbatim>\<open>includes\<close>, \<^verbatim>\<open>trim\<close>, \<^verbatim>\<open>toLowerCase\<close>, \<^verbatim>\<open>split\<close>, \<^verbatim>\<open>pop\<close>, \<^verbatim>\<open>join\<close>).
\<close>

fun startsWith :: "string \<Rightarrow> string \<Rightarrow> bool" where
  "startsWith s [] = True"
| "startsWith [] (p # ps) = False"
| "startsWith (c # cs) (p # ps) = (c = p \<and> startsWith cs ps)"

definition endsWith :: "string \<Rightarrow> string \<Rightarrow> bool" where
  "endsWith s p = startsWith (rev s) (rev p)"

fun includes_str :: "string \<Rightarrow> string \<Rightarrow> bool" where
  "includes_str [] p = (p = [])"
| "includes_str (c # cs) p = (startsWith (c # cs) p \<or> includes_str cs p)"

text \<open>
  White space and line terminators of ECMAScript below U+0100: TAB, LF, VT, FF, CR,
  SPACE and NO-BREAK SPACE.
\<close>

definition is_ws :: "char \<Rightarrow> bool" where
  "is_ws c = (c \<in> set [CHR 0x09, CHR 0x0A, CHR 0x0B, CHR 0x0C, CHR 0x0D, CHR 0x20, CHR 0xA0])"

definition trim :: "string \<Rightarrow> string" where
  "trim s = rev (dropWhile is_ws (rev (dropWhile is_ws s)))"

text \<open>
  Lower-casing of one code unit: the letters A to Z and the Latin-1 capitals
  U+00C0 to U+00DE (the multiplication sign U+00D7 apart) move up by 32, which sets
  bit 5; every other code unit is unchanged.
\<close>

definition is_upper :: "char \<Rightarrow> bool" where
  "is_upper c =
     (let n = (of_char c :: nat)
      in (65 \<le> n \<and> n \<le> 90) \<or> (192 \<le> n \<and> n \<le> 222 \<and> n \<noteq> 215))"

fun set_bit5 :: "char \<Rightarrow> char" where
  "set_bit5 (Char b0 b1 b2 b3 b4 b5 b6 b7) = Char b0 b1 b2 b3 b4 True b6 b7"

definition lower_char :: "char \<Rightarrow> char" where
  "lower_char c = (if is_upper c then set_bit5 c else c)"

definition toLowerCase :: "string \<Rightarrow> string" where
  "toLowerCase s = map lower_char s"

text \<open>\<^verbatim>\<open>s.split(sep)\<close> for a one-character separator: never the empty array.\<close>

fun split :: "char \<Rightarrow> string \<Rightarrow> string list" where
  "split sep [] = [[]]"
| "split sep (c # cs) =
     (if c = sep then [] # split sep cs
      else (let r = split sep cs in (c # hd r) # tl r))"

text \<open>\<^verbatim>\<open>xs.pop()\<close>: the last element, \<^verbatim>\<open>undefined\<close> on the empty array.\<close>

definition pop :: "'a list \<Rightarrow> 'a option" where
  "pop xs = (if xs = [] then None else Some (last xs))"

fun join :: "string \<Rightarrow> string list \<Rightarrow> string" where
  "join sep [] = []"
| "join sep [x] = x"
| "join sep (x # y # ys) = x @ sep @ join sep (y # ys)"

text \<open>
  \<^verbatim>\<open>a || b\<close> on strings: the empty string is falsy. \<^verbatim>\<open>s || undefined\<close> turns the
  empty string into an absent value.
\<close>

definition or_else :: "string \<Rightarrow> string \<Rightarrow> string" where
  "or_else a b = (if a = [] then b else a)"

definition or_undefined :: "string \<Rightarrow> string option" where
  "or_undefined a = (if a = [] then None else Some a)"

text \<open>
  The source writes \<^verbatim>\<open>'\\n'\<close> in the server: a backslash followed by the letter n,
  two code units. The line feed is one code unit, U+000A.
\<close>

definition backslash_n :: string where
  "backslash_n = [CHR 0x5C, CHR ''n'']"

definition line_feed :: string where
  "line_feed = [CHR 0x0A]"

section \<open>Faults\<close>

text \<open>
  What a JavaScript \<^verbatim>\<open>throw\<close> can carry here: a \<^verbatim>\<open>ScrapingError\<close> (config.ts), any
  other \<^verbatim>\<open>Error\<close>, or a value that is not an \<^verbatim>\<open>Error\<close>, kept with its \<^verbatim>\<open>String(...)\<close>
  rendering. A computation that may throw returns \<open>js_error + 'a\<close>.
\<close>

datatype js_error = ScrapingError string | Error string | Thrown string

fun instanceof_ScrapingError :: "js_error \<Rightarrow> bool" where
  "instanceof_ScrapingError (ScrapingError m) = True"
| "instanceof_ScrapingError (Error m) = False"
| "instanceof_ScrapingError (Thrown v) = False"

text \<open>\<^verbatim>\<open>error instanceof Error ? error.message : String(error)\<close>\<close>

fun error_message :: "js_error \<Rightarrow> string" where
  "error_message (ScrapingError m) = m"
| "error_message (Error m) = m"
| "error_message (Thrown v) = v"

text \<open>\<^verbatim>\<open>try { body } catch (error) { handler }\<close>\<close>

definition try_catch :: "js_error + 'a \<Rightarrow> (js_error \<Rightarrow> js_error + 'a) \<Rightarrow> js_error + 'a" where
  "try_catch body handler = (case body of Inl error \<Rightarrow> handler error | Inr v \<Rightarrow> Inr v)"

section \<open>Transport\<close>

text \<open>
  The HTTP collaborator (\<^verbatim>\<open>node-fetch\<close>) is a parameter: a function from the URL to
  a rejection or a response. A response has a status code, the status text sent by the
  server and a body whose reading may itself fail; \<^verbatim>\<open>response.ok\<close> is the status
  being in the range 200 to 299.
\<close>

record response =
  status :: nat
  statusText :: string
  body :: "js_error + string"

type_synonym transport = "string \<Rightarrow> js_error + response"

definition ok :: "response \<Rightarrow> bool" where
  "ok r = (200 \<le> status r \<and> status r < 300)"

definition BASE_URL :: string where
  "BASE_URL = ''https://www.heroui.com/docs''"

definition fetchHtml :: "transport \<Rightarrow> string \<Rightarrow> js_error + string" where
  "fetchHtml fetch url =
     try_catch
       (case fetch url of
          Inl error \<Rightarrow> Inl error
        | Inr response \<Rightarrow>
            if \<not> ok response
            then Inl (ScrapingError (''Failed to fetch '' @ url @ '': '' @ statusText response))
            else body response)
       (\<lambda>error.
          if instanceof_ScrapingError error then Inl error
          else Inl (ScrapingError (''Network error fetching '' @ url @ '': '' @ error_message error)))"

section \<open>Documents and selections\<close>

text \<open>
  The parsed document, as \<^verbatim>\<open>cheerio.load\<close> hands it to the scraper: a forest of
  element nodes (tag name, attributes, children) and text nodes. The parser itself is a
  parameter of the scraper, a total function from the page text to the forest
  (\<^verbatim>\<open>cheerio.load\<close> accepts any string).
\<close>

datatype node = Element string "(string \<times> string) list" "node list" | Text string

type_synonym document = "node list"

type_synonym loader = "string \<Rightarrow> document"

fun is_tag :: "string \<Rightarrow> node \<Rightarrow> bool" where
  "is_tag t (Element t' as cs) = (t' = t)"
| "is_tag t (Text s) = False"

fun attribute :: "string \<Rightarrow> node \<Rightarrow> string option" where
  "attribute a (Element t as cs) = map_of as a"
| "attribute a (Text s) = None"

fun kids :: "node \<Rightarrow> node list" where
  "kids (Element t as cs) = cs"
| "kids (Text s) = []"

text \<open>\<^verbatim>\<open>.text()\<close> of one node: the text of all its descendants, in document order.\<close>

fun text_of :: "node \<Rightarrow> string" where
  "text_of (Text s) = s"
| "text_of (Element t as cs) = concat (map text_of cs)"

text \<open>
  An element found by a query is kept with its place: the elements above it (nearest
  first, up to the root of the query), the siblings before it (nearest first) and the
  siblings after it.
\<close>

record loc =
  ancestors :: "node list"
  before :: "node list"
  elem :: node
  after :: "node list"

text \<open>All elements of a forest with their places, in document order.\<close>

fun walk :: "node list \<Rightarrow> node list \<Rightarrow> node list \<Rightarrow> loc list" where
  "walk anc bef [] = []"
| "walk anc bef (Text s # aft) = walk anc (Text s # bef) aft"
| "walk anc bef (Element t as cs # aft) =
     \<lparr>ancestors = anc, before = bef, elem = Element t as cs, after = aft\<rparr>
       # walk (Element t as cs # anc) [] cs
       @ walk anc (Element t as cs # bef) aft"

text \<open>
  \<^verbatim>\<open>$(selector)\<close> on the document and \<^verbatim>\<open>$(element).find(selector)\<close>: the elements
  that match, in document order. A selector is a predicate on an element and its
  place. In \<^verbatim>\<open>find\<close> the selector is relative to the element searched, so the
  ancestors it sees are those below that element.
\<close>

definition select :: "(loc \<Rightarrow> bool) \<Rightarrow> document \<Rightarrow> loc list" where
  "select sel doc = filter sel (walk [] [] doc)"

definition find_in :: "(loc \<Rightarrow> bool) \<Rightarrow> node \<Rightarrow> node list" where
  "find_in sel n = map elem (filter sel (walk [] [] (kids n)))"

definition find_all :: "(loc \<Rightarrow> bool) \<Rightarrow> node list \<Rightarrow> node list" where
  "find_all sel ns = concat (map (find_in sel) ns)"

text \<open>\<^verbatim>\<open>.text()\<close>, \<^verbatim>\<open>.attr(name)\<close> and \<^verbatim>\<open>.first()\<close> of a set of elements.\<close>

definition text_all :: "node list \<Rightarrow> string" where
  "text_all ns = concat (map text_of ns)"

definition attr :: "string \<Rightarrow> node list \<Rightarrow> string option" where
  "attr a ns = (case ns of [] \<Rightarrow> None | n # rest \<Rightarrow> attribute a n)"

definition first :: "'a list \<Rightarrow> 'a list" where
  "first ns = take 1 ns"

text \<open>
  \<^verbatim>\<open>.prevAll(tag)\<close>: the element siblings before, nearest first, that carry the tag.
  \<^verbatim>\<open>.next(tag)\<close>: the element sibling right after, if it carries the tag.
\<close>

definition prevAll :: "string \<Rightarrow> loc \<Rightarrow> node list" where
  "prevAll t l = filter (is_tag t) (before l)"

fun is_element :: "node \<Rightarrow> bool" where
  "is_element (Element t as cs) = True"
| "is_element (Text s) = False"

definition next_sibling :: "string \<Rightarrow> loc \<Rightarrow> node list" where
  "next_sibling t l =
     (case filter is_element (after l) of
        [] \<Rightarrow> []
      | n # rest \<Rightarrow> if is_tag t n then [n] else [])"

definition has_ancestor :: "string \<Rightarrow> loc \<Rightarrow> bool" where
  "has_ancestor t l = list_ex (is_tag t) (ancestors l)"

text \<open>The selectors of the scraper.\<close>

definition sel_nav_component_links :: "loc \<Rightarrow> bool" where
  \<comment> \<open>\<^verbatim>\<open>nav a[href^="/docs/components/"]\<close>\<close>
  "sel_nav_component_links l =
     (is_tag ''a'' (elem l)
      \<and> (case attribute ''href'' (elem l) of
           None \<Rightarrow> False
         | Some h \<Rightarrow> startsWith h ''/docs/components/'')
      \<and> has_ancestor ''nav'' l)"

definition sel_component_preview :: "loc \<Rightarrow> bool" where
  \<comment> \<open>\<^verbatim>\<open>div[data-slot="component-preview"]\<close>\<close>
  "sel_component_preview l =
     (is_tag ''div'' (elem l) \<and> attribute ''data-slot'' (elem l) = Some ''component-preview'')"

definition sel_pre_code :: "loc \<Rightarrow> bool" where
  \<comment> \<open>\<^verbatim>\<open>pre code\<close>\<close>
  "sel_pre_code l = (is_tag ''code'' (elem l) \<and> has_ancestor ''pre'' l)"

definition sel_h3 :: "loc \<Rightarrow> bool" where
  \<comment> \<open>\<^verbatim>\<open>h3\<close>\<close>
  "sel_h3 l = is_tag ''h3'' (elem l)"

definition sel_tbody_tr :: "loc \<Rightarrow> bool" where
  \<comment> \<open>\<^verbatim>\<open>tbody tr\<close>\<close>
  "sel_tbody_tr l = (is_tag ''tr'' (elem l) \<and> has_ancestor ''tbody'' l)"

definition sel_td :: "loc \<Rightarrow> bool" where
  \<comment> \<open>\<^verbatim>\<open>td\<close>\<close>
  "sel_td l = is_tag ''td'' (elem l)"

section \<open>The scraper\<close>

text \<open>
  The object shapes of config.ts. \<^verbatim>\<open>name\<close> is a field of the component entry, of a
  prop and of an event, so the three records share it through a common parent;
  a prop is an event with a \<^verbatim>\<open>defaultValue\<close>. Optional fields are options.
\<close>

record named =
  name :: string

record component_ref = named +
  url :: string

record api_event = named +
  type :: string
  description :: "string option"

record api_property = api_event +
  defaultValue :: "string option"

record component_api =
  props :: "api_property list"
  events :: "api_event list"

record component_example =
  title :: "string option"
  code :: string
  language :: string

subsection \<open>getComponentList\<close>

text \<open>The body of the \<^verbatim>\<open>.each\<close> callback: one link, pushed when it qualifies.\<close>

definition push_component :: "component_ref list \<Rightarrow> loc \<Rightarrow> component_ref list" where
  "push_component components link =
     (let name = trim (text_of (elem link))
      in case attribute ''href'' (elem link) of
           None \<Rightarrow> components
         | Some href \<Rightarrow>
             if href \<noteq> [] \<and> name \<noteq> [] \<and> \<not> endsWith href ''/components/''
             then components @
                    [\<lparr>name = name,
                      url = (if startsWith href ''http'' then href
                             else ''https://www.heroui.com'' @ href)\<rparr>]
             else components)"

definition getComponentList :: "transport \<Rightarrow> loader \<Rightarrow> js_error + component_ref list" where
  "getComponentList fetch load =
     try_catch
       (case fetchHtml fetch (BASE_URL @ ''/guide/introduction'') of
          Inl error \<Rightarrow> Inl error
        | Inr html \<Rightarrow> Inr (foldl push_component [] (select sel_nav_component_links (load html))))
       (\<lambda>error. Inl (ScrapingError (''Failed to get component list: '' @ error_message error)))"

subsection \<open>getComponentExamples\<close>

text \<open>
  \<^verbatim>\<open>codeElement.attr('class')?.split('-').pop() || 'typescript'\<close>
\<close>

definition detect_language :: "node list \<Rightarrow> string" where
  "detect_language codeElement =
     (case attr ''class'' codeElement of
        None \<Rightarrow> ''typescript''
      | Some c \<Rightarrow>
          (case pop (split CHR ''-'' c) of
             None \<Rightarrow> ''typescript''
           | Some lang \<Rightarrow> or_else lang ''typescript''))"

definition push_example :: "component_example list \<Rightarrow> loc \<Rightarrow> component_example list" where
  "push_example examples previewDiv =
     (let title = or_undefined (trim (text_all (first (prevAll ''h3'' previewDiv))));
          codeElement = find_in sel_pre_code (elem previewDiv);
          code = trim (text_all codeElement);
          language = detect_language codeElement
      in if code \<noteq> []
         then examples @ [\<lparr>title = title, code = code, language = language\<rparr>]
         else examples)"

text \<open>
  The \<^verbatim>\<open>catch\<close> block shared by \<^verbatim>\<open>getComponentExamples\<close> and \<^verbatim>\<open>getComponentApi\<close>:
  a \<^verbatim>\<open>ScrapingError\<close> whose message does not contain \<^verbatim>\<open>404\<close> is thrown again, any
  other fault is wrapped, and a \<^verbatim>\<open>ScrapingError\<close> whose message contains \<^verbatim>\<open>404\<close>
  gives the fallback value.
\<close>

definition on_fault :: "string \<Rightarrow> 'a \<Rightarrow> js_error \<Rightarrow> js_error + 'a" where
  "on_fault what fallback error =
     (if instanceof_ScrapingError error \<and> \<not> includes_str (error_message error) ''404''
      then Inl error
      else if \<not> instanceof_ScrapingError error
      then Inl (ScrapingError (what @ '': '' @ error_message error))
      else Inr fallback)"

definition getComponentExamples ::
  "transport \<Rightarrow> loader \<Rightarrow> string \<Rightarrow> js_error + component_example list" where
  "getComponentExamples fetch load componentName =
     (let componentUrl = BASE_URL @ ''/components/'' @ toLowerCase componentName
      in try_catch
           (case fetchHtml fetch componentUrl of
              Inl error \<Rightarrow> Inl error
            | Inr html \<Rightarrow> Inr (foldl push_example [] (select sel_component_preview (load html))))
           (on_fault (''Failed to get examples for '' @ componentName) []))"

subsection \<open>getComponentApi\<close>

definition push_prop :: "api_property list \<Rightarrow> node \<Rightarrow> api_property list" where
  "push_prop acc tr =
     (let cells = find_in sel_td tr
      in if length cells \<ge> 2
         then acc @
                [\<lparr>name = trim (text_of (cells ! 0)),
                  type = trim (text_of (cells ! 1)),
                  description = (if length cells > 2 then Some (trim (text_of (cells ! 2))) else None),
                  defaultValue = (if length cells > 3 then Some (trim (text_of (cells ! 3))) else None)\<rparr>]
         else acc)"

definition push_event :: "api_event list \<Rightarrow> node \<Rightarrow> api_event list" where
  "push_event acc tr =
     (let cells = find_in sel_td tr
      in if length cells \<ge> 2
         then acc @
                [\<lparr>name = trim (text_of (cells ! 0)),
                  type = trim (text_of (cells ! 1)),
                  description = (if length cells > 2 then Some (trim (text_of (cells ! 2))) else None)\<rparr>]
         else acc)"

text \<open>The body of the \<^verbatim>\<open>$('h3').each\<close> callback.\<close>

definition scan_heading :: "component_api \<Rightarrow> loc \<Rightarrow> component_api" where
  "scan_heading api h3 =
     (let title = toLowerCase (trim (text_of (elem h3)));
          table = first (next_sibling ''table'' h3)
      in if length table > 0
         then (if includes_str title ''props''
               then api\<lparr>props := foldl push_prop (props api) (find_all sel_tbody_tr table)\<rparr>
               else if includes_str title ''events''
               then api\<lparr>events := foldl push_event (events api) (find_all sel_tbody_tr table)\<rparr>
               else api)
         else api)"

definition scan_api :: "document \<Rightarrow> component_api" where
  "scan_api doc = foldl scan_heading \<lparr>props = [], events = []\<rparr> (select sel_h3 doc)"

definition getComponentApi ::
  "transport \<Rightarrow> loader \<Rightarrow> string \<Rightarrow> js_error + component_api option" where
  "getComponentApi fetch load componentName =
     (let componentUrl = BASE_URL @ ''/components/'' @ toLowerCase componentName
      in try_catch
           (case fetchHtml fetch componentUrl of
              Inl error \<Rightarrow> Inl error
            | Inr html \<Rightarrow>
                (let api = scan_api (load html)
                 in if length (props api) = 0 \<and> length (events api) = 0
                    then Inr None
                    else Inr (Some api)))
           (on_fault (''Failed to get API for '' @ componentName) None))"

subsection \<open>What one link and one preview container contribute\<close>

text \<open>
  The entry \<^verbatim>\<open>getComponentList\<close> pushes for a link that the selector found, and
  the condition under which it pushes it: the text of the link holds a character that
  is not white space, and the destination does not end with \<^verbatim>\<open>/components/\<close>.
  The entry \<^verbatim>\<open>getComponentExamples\<close> pushes for a preview container: the title from
  the first \<^verbatim>\<open>h3\<close> among the siblings before the container, nearest first; the code
  from the text of the code blocks inside it; the language as the part of the first code
  block's class name after its last hyphen. They are written with the list functions of
  the library, not with the operations of the scraper, and the theorems below relate
  the loops to them.
\<close>

definition href_of :: "loc \<Rightarrow> string" where
  "href_of l = (case attribute ''href'' (elem l) of None \<Rightarrow> [] | Some h \<Rightarrow> h)"

definition link_entry :: "loc \<Rightarrow> component_ref" where
  "link_entry l =
     \<lparr>name = trim (text_of (elem l)), url = ''https://www.heroui.com'' @ href_of l\<rparr>"

definition link_qualifies :: "loc \<Rightarrow> bool" where
  "link_qualifies l =
     ((\<exists>c \<in> set (text_of (elem l)). \<not> is_ws c) \<and> \<not> suffix ''/components/'' (href_of l))"




text \<open>The elements of a tree in document order: a node before its descendants.\<close>

fun elements :: "node \<Rightarrow> node list" where
  "elements (Text s) = []"
| "elements (Element t as cs) = Element t as cs # concat (map elements cs)"

text \<open>
  The links of the directory in the words of the specification: all hyperlink
  elements of the page whose destination begins with \<^verbatim>\<open>/docs/components/\<close>, the
  root components link apart, in document order. The links the scraper scans are
  compared with them below.
\<close>

definition links_as_specified :: "document \<Rightarrow> node list" where
  "links_as_specified doc =
     filter
       (\<lambda>n. is_tag ''a'' n
            \<and> (case attribute ''href'' n of
                 None \<Rightarrow> False
               | Some h \<Rightarrow> prefix ''/docs/components/'' h \<and> h \<noteq> ''/docs/components/''))
       (concat (map elements doc))"

section \<open>The server\<close>

subsection \<open>Input schema\<close>

text \<open>
  The arguments of a tool call arrive as a JSON object. The two tools that take a
  component declare the shape \<^verbatim>\<open>{ componentName: z.string() }\<close>: the key must be
  there and hold a string. \<^verbatim>\<open>z.string()\<close> carries no length check.
\<close>

datatype json =
  JNull | JBool bool | JNumber int | JString string
  | JArray "json list" | JObject "(string \<times> json) list"

datatype zod_issue = Required string | Expected_string string

definition z_string :: "string \<Rightarrow> json option \<Rightarrow> zod_issue + string" where
  "z_string path v =
     (case v of
        None \<Rightarrow> Inl (Required path)
      | Some (JString s) \<Rightarrow> Inr s
      | Some other \<Rightarrow> Inl (Expected_string path))"

definition componentName_schema :: "(string \<times> json) list \<Rightarrow> zod_issue + string" where
  "componentName_schema args = z_string ''componentName'' (map_of args ''componentName'')"

subsection \<open>Response envelopes and log messages\<close>

text \<open>
  A content entry is a text (\<^verbatim>\<open>type: "text"\<close>) or a code example
  (\<^verbatim>\<open>type: "code"\<close> with the fields of the example). An envelope without the
  \<^verbatim>\<open>isError\<close> key has \<open>isError = False\<close>.
\<close>

datatype content_item = TextContent string | CodeContent "string option" string string

record envelope =
  isError :: bool
  content :: "content_item list"

record log_message =
  level :: string
  data :: "string list"

definition log_info :: "string \<Rightarrow> log_message" where
  "log_info msg = \<lparr>level = ''info'', data = [msg]\<rparr>"

definition log_error :: "string \<Rightarrow> log_message" where
  "log_error msg = \<lparr>level = ''error'', data = [msg]\<rparr>"

subsection \<open>Formatting\<close>

definition component_line :: "component_ref \<Rightarrow> string" where
  "component_line c = ''- '' @ name c @ '' ('' @ url c @ '')''"

definition componentListText :: "component_ref list \<Rightarrow> string" where
  "componentListText components = join backslash_n (map component_line components)"

definition prop_line :: "api_property \<Rightarrow> string" where
  "prop_line p =
     ''- `'' @ name p @ ''`: `'' @ type p @ ''`''
     @ (case defaultValue p of
          None \<Rightarrow> []
        | Some d \<Rightarrow> if d \<noteq> [] then '' (default: `'' @ d @ ''`)'' else [])
     @ (case description p of
          None \<Rightarrow> []
        | Some d \<Rightarrow> if d \<noteq> [] then '' - '' @ d else [])"

definition event_line :: "api_event \<Rightarrow> string" where
  "event_line e =
     ''- `'' @ name e @ ''`: `'' @ type e @ ''`''
     @ (case description e of
          None \<Rightarrow> []
        | Some d \<Rightarrow> if d \<noteq> [] then '' - '' @ d else [])"

definition apiText :: "string \<Rightarrow> component_api \<Rightarrow> string" where
  "apiText componentName api =
     (let t0 = ''API for '' @ componentName @ '':'' @ backslash_n @ backslash_n;
          t1 = (if length (props api) > 0
                then t0 @ ''**Props:**'' @ backslash_n
                        @ join backslash_n (map prop_line (props api))
                        @ backslash_n @ backslash_n
                else t0);
          t2 = (if length (events api) > 0
                then t1 @ ''**Events:**'' @ backslash_n
                        @ join backslash_n (map event_line (events api))
                else t1)
      in t2)"

subsection \<open>The three tools\<close>

text \<open>
  Each handler is one \<^verbatim>\<open>try\<close> block whose \<^verbatim>\<open>catch\<close> block returns: it yields an
  envelope on every path, together with the log messages it sent.
\<close>

definition get_heroui_component_list ::
  "transport \<Rightarrow> loader \<Rightarrow> envelope \<times> log_message list" where
  "get_heroui_component_list fetch load =
     (let log1 = [log_info ''Executing get_heroui_component_list tool'']
      in case getComponentList fetch load of
           Inr components \<Rightarrow>
             if length components = 0
             then (\<lparr>isError = False,
                    content = [TextContent
                      ''Could not find any components. The documentation structure might have changed.'']\<rparr>,
                   log1)
             else (\<lparr>isError = False,
                    content = [TextContent
                      (''Available HeroUI Components:'' @ backslash_n @ componentListText components)]\<rparr>,
                   log1)
         | Inl error \<Rightarrow>
             (let message = error_message error
              in (\<lparr>isError = True,
                   content = [TextContent (''Error fetching component list: '' @ message)]\<rparr>,
                  log1 @ [log_error (''Error in get_heroui_component_list tool: '' @ message)])))"

definition get_heroui_component_examples ::
  "transport \<Rightarrow> loader \<Rightarrow> string \<Rightarrow> envelope \<times> log_message list" where
  "get_heroui_component_examples fetch load componentName =
     (let log1 = [log_info (''Executing get_heroui_component_examples tool for: '' @ componentName)]
      in case getComponentExamples fetch load componentName of
           Inr examples \<Rightarrow>
             if length examples = 0
             then (\<lparr>isError = False,
                    content = [TextContent
                      (''No examples found for component '' @ [CHR 0x27] @ componentName @ [CHR 0x27]
                       @ ''. Check the component name or the documentation structure.'')]\<rparr>,
                   log1)
             else (\<lparr>isError = False,
                    content = map (\<lambda>ex. CodeContent (title ex) (code ex) (language ex)) examples\<rparr>,
                   log1)
         | Inl error \<Rightarrow>
             (let message = error_message error
              in (\<lparr>isError = True,
                   content = [TextContent
                     (''Error fetching examples for '' @ componentName @ '': '' @ message)]\<rparr>,
                  log1 @ [log_error (''Error in get_heroui_component_examples tool for ''
                                     @ componentName @ '': '' @ message)])))"

definition get_heroui_component_api ::
  "transport \<Rightarrow> loader \<Rightarrow> string \<Rightarrow> envelope \<times> log_message list" where
  "get_heroui_component_api fetch load componentName =
     (let log1 = [log_info (''Executing get_heroui_component_api tool for: '' @ componentName)]
      in case getComponentApi fetch load componentName of
           Inr None \<Rightarrow>
             (\<lparr>isError = False,
               content = [TextContent
                 (''No API documentation found for component '' @ [CHR 0x27] @ componentName @ [CHR 0x27]
                  @ ''. Check the component name or the documentation structure.'')]\<rparr>,
              log1)
         | Inr (Some api) \<Rightarrow>
             (\<lparr>isError = False,
               content = [TextContent
                 (or_else (trim (apiText componentName api)) ''No API details extracted.'')]\<rparr>,
              log1)
         | Inl error \<Rightarrow>
             (let message = error_message error
              in (\<lparr>isError = True,
                   content = [TextContent
                     (''Error fetching API for '' @ componentName @ '': '' @ message)]\<rparr>,
                  log1 @ [log_error (''Error in get_heroui_component_api tool for ''
                                     @ componentName @ '': '' @ message)])))"

section \<open>Fixtures\<close>

text \<open>
  A transport that serves one page with status 200 and answers every other URL with
  status 404 and the status text of that code, and a transport that answers every URL
  with a given status line.
\<close>

definition serve :: "string \<Rightarrow> string \<Rightarrow> transport" where
  "serve page html =
     (\<lambda>u. if u = page then Inr \<lparr>status = 200, statusText = ''OK'', body = Inr html\<rparr>
          else Inr \<lparr>status = 404, statusText = ''Not Found'', body = Inr []\<rparr>)"

definition answer :: "nat \<Rightarrow> string \<Rightarrow> transport" where
  "answer st txt = (\<lambda>u. Inr \<lparr>status = st, statusText = txt, body = Inr []\<rparr>)"

text \<open>
  An introduction page: a navigation bar with the root components link, a component
  link, an external link, a component link without visible text and a nested
  component link; below it, outside the navigation bar, one more component link.
\<close>

definition intro_doc :: document where
  "intro_doc =
     [Element ''html'' []
       [Element ''body'' []
         [Element ''nav'' []
           [Element ''a'' [(''href'', ''/docs/components/'')] [Text ''Components''],
            Text '' '',
            Element ''a'' [(''href'', ''/docs/components/accordion'')] [Text '' Accordion ''],
            Element ''a'' [(''href'', ''https://example.com/docs/components/x'')] [Text ''External''],
            Element ''a'' [(''href'', ''/docs/components/avatar'')] [Text '' ''],
            Element ''ul'' []
              [Element ''li'' []
                [Element ''a'' [(''href'', ''/docs/components/button'')]
                  [Element ''span'' [] [Text ''Button'']]]]],
          Element ''main'' []
            [Element ''a'' [(''href'', ''/docs/components/card'')] [Text ''Card'']]]]]"

text \<open>
  A page after a change of the site: in the navigation bar the root components link,
  a component link whose destination ends with \<^verbatim>\<open>/components/\<close> and a component
  link that holds an image and no text; outside the navigation bar a component link.
\<close>

definition drift_doc :: document where
  "drift_doc =
     [Element ''html'' []
       [Element ''body'' []
         [Element ''nav'' []
           [Element ''a'' [(''href'', ''/docs/components/'')] [Text ''Components''],
            Element ''a'' [(''href'', ''/docs/components/layout/components/'')] [Text ''Layout''],
            Element ''a'' [(''href'', ''/docs/components/image'')]
              [Element ''img'' [(''src'', ''/image.png'')] []]],
          Element ''main'' []
            [Element ''a'' [(''href'', ''/docs/components/card'')] [Text ''Card'']]]]]"

definition intro_url :: string where
  "intro_url = ''https://www.heroui.com/docs/guide/introduction''"

text \<open>
  The button page: a heading, then a preview container with a code block; and a
  variant with a second preview container that holds no code block, placed first.
\<close>

definition button_preview :: node where
  "button_preview =
     Element ''div'' [(''data-slot'', ''component-preview'')]
       [Element ''pre'' []
         [Element ''code'' [(''class'', ''language-jsx'')] [Text ''<Button>Click</Button>'']]]"

definition button_doc :: document where
  "button_doc =
     [Element ''html'' []
       [Element ''body'' []
         [Element ''h3'' [] [Text ''Basic Usage''], Text '' '', button_preview]]]"

definition button_doc2 :: document where
  "button_doc2 =
     [Element ''html'' []
       [Element ''body'' []
         [Element ''div'' [(''data-slot'', ''component-preview'')]
            [Element ''p'' [] [Text ''no code here'']],
          Element ''h3'' [] [Text ''Basic Usage''],
          button_preview]]]"



text \<open>
  A page with six preview containers. The first follows two \<^verbatim>\<open>h3\<close> headings, the
  nearer one with white space around its text, and a paragraph; its code has white
  space and a line feed around it. The second follows an \<^verbatim>\<open>h2\<close> heading and has a
  class name without hyphen. The third follows a blank \<^verbatim>\<open>h3\<close> heading and has a
  class name that ends with a hyphen. The fourth has a code element outside any
  \<^verbatim>\<open>pre\<close>. The fifth has a code block without class. The sixth has no sibling
  before it, a heading inside it and two code blocks.
\<close>

definition gallery_doc :: document where
  "gallery_doc =
     [Element ''html'' []
       [Element ''body'' []
         [Element ''section'' []
           [Element ''h3'' [] [Text ''First''],
            Element ''h3'' [] [Text ''  Second  ''],
            Text '' '',
            Element ''p'' [] [Text ''intro''],
            Element ''div'' [(''data-slot'', ''component-preview'')]
              [Element ''div'' []
                [Element ''pre'' []
                  [Element ''code'' [(''class'', ''language-tsx'')]
                     [Text (''  <A/>'' @ [CHR 0x0A] @ '' '')]]]],
            Element ''h2'' [] [Text ''Nearer''],
            Element ''div'' [(''data-slot'', ''component-preview'')]
              [Element ''pre'' [] [Element ''code'' [(''class'', ''hljs'')] [Text ''b()'']]],
            Element ''h3'' [] [Text ''   ''],
            Element ''div'' [(''data-slot'', ''component-preview'')]
              [Element ''pre'' [] [Element ''code'' [(''class'', ''language-'')] [Text ''c'']]],
            Element ''div'' [(''data-slot'', ''component-preview'')]
              [Element ''code'' [(''class'', ''language-js'')] [Text ''no pre'']],
            Element ''div'' [(''data-slot'', ''component-preview'')]
              [Element ''pre'' [] [Element ''code'' [] [Text ''d'']]]],
          Element ''aside'' []
           [Element ''div'' [(''data-slot'', ''component-preview'')]
              [Element ''h3'' [] [Text ''Inside''],
               Element ''pre'' []
                 [Element ''code'' [(''class'', ''a-b-json'')] [Text ''e''],
                  Element ''code'' [] [Text ''f'']]]]]]]"

definition button_url :: string where
  "button_url = ''https://www.heroui.com/docs/components/button''"

text \<open>
  The switch page: a heading Props followed by a table with the one row
  isSelected, boolean, Whether selected and an empty fourth cell; no Events heading.
  A page with a heading Events followed by a table whose body has rows of one, two
  and three cells. A page with neither heading.
\<close>

definition switch_doc :: document where
  "switch_doc =
     [Element ''html'' []
       [Element ''body'' []
         [Element ''h3'' [] [Text ''Props''],
          Element ''table'' []
            [Element ''tbody'' []
              [Element ''tr'' []
                [Element ''td'' [] [Text ''isSelected''],
                 Element ''td'' [] [Text ''boolean''],
                 Element ''td'' [] [Text ''Whether selected''],
                 Element ''td'' [] [Text []]]]]]]]"

definition events_doc :: document where
  "events_doc =
     [Element ''html'' []
       [Element ''body'' []
         [Element ''h3'' [] [Text '' Events ''],
          Text '' '',
          Element ''table'' []
            [Element ''thead'' []
              [Element ''tr'' [] [Element ''th'' [] [Text ''Name''], Element ''th'' [] [Text ''Type'']]],
             Element ''tbody'' []
              [Element ''tr'' [] [Element ''td'' [] [Text ''onChange'']],
               Element ''tr'' []
                [Element ''td'' [] [Text ''onChange''],
                 Element ''td'' [] [Text ''function'']],
               Element ''tr'' []
                [Element ''td'' [] [Text ''onValueChange''],
                 Element ''td'' [] [Text ''function''],
                 Element ''td'' [] [Text '' Fires on change '']]]]]]]"

definition plain_doc :: document where
  "plain_doc = [Element ''html'' [] [Element ''body'' [] [Element ''p'' [] [Text ''Hello'']]]]"

definition switch_url :: string where
  "switch_url = ''https://www.heroui.com/docs/components/switch''"

text \<open>Table rows with one, two and four cells.\<close>

definition row_short :: node where
  "row_short = Element ''tr'' [] [Element ''td'' [] [Text ''only'']]"

definition row_two :: node where
  "row_two =
     Element ''tr'' []
       [Element ''td'' [] [Text '' color ''], Element ''td'' [] [Text ''string'']]"

definition row_four :: node where
  "row_four =
     Element ''tr'' []
       [Element ''td'' [] [Text ''isSelected''],
        Element ''td'' [] [Text ''boolean''],
        Element ''td'' [] [Text ''Whether selected''],
        Element ''td'' [] [Text []]]"


text \<open>A parser that reads every page as the given document.\<close>

definition parsed_as :: "document \<Rightarrow> loader" where
  "parsed_as doc = (\<lambda>html. doc)"

section \<open>Kinds of envelope\<close>

text \<open>
  The three kinds of answer a host can receive. An error envelope has the error flag
  and one non-empty text; an explanation is a success envelope with one non-empty text;
  a success envelope with content has no error flag and at least one entry.
\<close>

definition single_text :: "envelope \<Rightarrow> bool" where
  "single_text env = (case content env of [TextContent t] \<Rightarrow> t \<noteq> [] | other \<Rightarrow> False)"

definition error_envelope :: "envelope \<Rightarrow> bool" where
  "error_envelope env = (isError env \<and> single_text env)"

definition explanation_envelope :: "envelope \<Rightarrow> bool" where
  "explanation_envelope env = (\<not> isError env \<and> single_text env)"

definition content_envelope :: "envelope \<Rightarrow> bool" where
  "content_envelope env = (\<not> isError env \<and> content env \<noteq> [])"

section \<open>The directory listing as specified\<close>

text \<open>
  The text of the directory listing in the words of the specification: a banner
  line, then one line per entry, the lines joined by line feeds. The text the tool
  builds is compared with it below.
\<close>

definition listing_as_specified :: "component_ref list \<Rightarrow> string" where
  "listing_as_specified components =
     ''Available HeroUI Components:'' @ line_feed @ join line_feed (map component_line components)"

section \<open>Facts about the string operations\<close>

lemma startsWith_append: "startsWith (p @ s) p"
  by (induction p) simp_all

lemma includes_str_startsWith: "startsWith s p \<Longrightarrow> includes_str s p"
  by (cases s; cases p) simp_all

lemma includes_str_append: "includes_str (a @ p @ b) p"
proof (induction a)
  case Nil
  show ?case by (simp add: includes_str_startsWith startsWith_append)
next
  case (Cons c a)
  then show ?case by simp
qed

lemma trim_starts: "\<not> is_ws c \<Longrightarrow> \<exists>t. trim (c # s) = c # t"
proof -
  assume c: "\<not> is_ws c"
  have "dropWhile is_ws (rev s @ [c]) = (dropWhile is_ws (rev s)) @ [c]"
    using c by (simp add: dropWhile_append)
  then show ?thesis using c by (simp add: trim_def)
qed






lemma startsWith_same_prefix: "startsWith (a @ s) (a @ p) = startsWith s p"
  by (induction a) simp_all


text \<open>The operations of the scraper on strings in the terms of the library.\<close>

lemma startsWith_prefix: "startsWith s p = prefix p s"
  by (induction s p rule: startsWith.induct) auto

lemma endsWith_suffix: "endsWith s p = suffix p s"
  by (simp add: endsWith_def startsWith_prefix suffix_to_prefix)

lemma all_dropWhile: "(\<forall>x \<in> set (dropWhile P s). P x) = (\<forall>x \<in> set s. P x)"
proof
  assume a: "\<forall>x \<in> set (dropWhile P s). P x"
  have "set s = set (takeWhile P s) \<union> set (dropWhile P s)"
    by (metis set_append takeWhile_dropWhile_id)
  then show "\<forall>x \<in> set s. P x"
    using a by (auto dest: set_takeWhileD)
next
  assume "\<forall>x \<in> set s. P x"
  then show "\<forall>x \<in> set (dropWhile P s). P x"
    by (auto dest: set_dropWhileD)
qed

lemma trim_blank: "trim s = [] \<longleftrightarrow> (\<forall>c \<in> set s. is_ws c)"
proof -
  have "trim s = [] \<longleftrightarrow> (\<forall>c \<in> set (dropWhile is_ws s). is_ws c)"
    by (simp add: trim_def dropWhile_eq_Nil_conv)
  then show ?thesis by (simp only: all_dropWhile)
qed

text \<open>
  \<open>trim\<close> takes white space, and nothing else, from the two ends of a string: what
  it leaves neither begins nor ends with white space.
\<close>

lemma trim_strips:
  "\<exists>a b. s = a @ trim s @ b \<and> list_all is_ws a \<and> list_all is_ws b
         \<and> (trim s = [] \<or> (\<not> is_ws (hd (trim s)) \<and> \<not> is_ws (last (trim s))))"
proof -
  let ?r = "dropWhile is_ws s"
  let ?a = "takeWhile is_ws s"
  let ?b = "rev (takeWhile is_ws (rev ?r))"
  have r: "?r = trim s @ ?b"
  proof -
    have "?r = rev (takeWhile is_ws (rev ?r) @ dropWhile is_ws (rev ?r))"
      by (simp only: takeWhile_dropWhile_id rev_rev_ident)
    also have "\<dots> = rev (dropWhile is_ws (rev ?r)) @ rev (takeWhile is_ws (rev ?r))"
      by (rule rev_append)
    finally show ?thesis unfolding trim_def .
  qed
  have s: "s = ?a @ trim s @ ?b"
    using r by (metis takeWhile_dropWhile_id)
  have wa: "list_all is_ws ?a"
    by (auto simp: list_all_iff dest: set_takeWhileD)
  have wb: "list_all is_ws ?b"
    by (auto simp: list_all_iff dest: set_takeWhileD)
  have ends: "trim s = [] \<or> (\<not> is_ws (hd (trim s)) \<and> \<not> is_ws (last (trim s)))"
  proof (cases "trim s = []")
    case True
    then show ?thesis by simp
  next
    case False
    then have ne: "dropWhile is_ws (rev ?r) \<noteq> []"
      by (simp add: trim_def)
    have l: "last (trim s) = hd (dropWhile is_ws (rev ?r))"
      using ne by (simp add: trim_def last_rev)
    have "\<not> is_ws (hd (dropWhile is_ws (rev ?r)))"
      using ne by (rule hd_dropWhile)
    then have last: "\<not> is_ws (last (trim s))"
      using l by simp
    have "?r \<noteq> []" using r False by (metis append_is_Nil_conv)
    then have "\<not> is_ws (hd ?r)" by (rule hd_dropWhile)
    moreover have "hd ?r = hd (trim s)"
      using r False by (metis hd_append2)
    ultimately show ?thesis using last by simp
  qed
  from s wa wb ends show ?thesis by blast
qed

section \<open>Facts about documents and selections\<close>

text \<open>
  \<open>walk\<close> lists the elements in document order, and the siblings it records around
  an element are the other children of the element's parent, those before it nearest
  first.
\<close>

lemma elem_walk: "map elem (walk anc bef ns) = concat (map elements ns)"
  by (induction anc bef ns rule: walk.induct) simp_all


lemma subseq_select: "subseq (map elem (select sel doc)) (concat (map elements doc))"
proof -
  have "subseq (map elem (filter sel (walk [] [] doc))) (map elem (walk [] [] doc))"
    by (intro subseq_map subseq_filter_left)
  then show ?thesis by (simp add: select_def elem_walk)
qed


section \<open>Facts about the scraper\<close>

lemma fetchHtml_fault: "fetchHtml fetch u = Inl e \<Longrightarrow> instanceof_ScrapingError e"
  by (auto simp: fetchHtml_def try_catch_def split: sum.splits if_splits)

text \<open>
  The three functions by cases on the fetch. A fault of \<open>fetchHtml\<close> is a
  \<^verbatim>\<open>ScrapingError\<close>, so the \<^verbatim>\<open>catch\<close> blocks never take their wrapping branch.
\<close>

lemma getComponentList_cases:
  "getComponentList fetch load =
     (case fetchHtml fetch (BASE_URL @ ''/guide/introduction'') of
        Inl e \<Rightarrow> Inl (ScrapingError (''Failed to get component list: '' @ error_message e))
      | Inr html \<Rightarrow> Inr (foldl push_component [] (select sel_nav_component_links (load html))))"
  by (simp add: getComponentList_def try_catch_def split: sum.splits)

lemma getComponentExamples_cases:
  "getComponentExamples fetch load a =
     (case fetchHtml fetch (BASE_URL @ ''/components/'' @ toLowerCase a) of
        Inl e \<Rightarrow> if includes_str (error_message e) ''404'' then Inr [] else Inl e
      | Inr html \<Rightarrow> Inr (foldl push_example [] (select sel_component_preview (load html))))"
  by (auto simp: getComponentExamples_def try_catch_def on_fault_def Let_def
      split: sum.splits dest: fetchHtml_fault)

lemma getComponentApi_cases:
  "getComponentApi fetch load a =
     (case fetchHtml fetch (BASE_URL @ ''/components/'' @ toLowerCase a) of
        Inl e \<Rightarrow> if includes_str (error_message e) ''404'' then Inr None else Inl e
      | Inr html \<Rightarrow>
          if props (scan_api (load html)) = [] \<and> events (scan_api (load html)) = []
          then Inr None else Inr (Some (scan_api (load html))))"
  by (auto simp: getComponentApi_def try_catch_def on_fault_def Let_def
      split: sum.splits dest: fetchHtml_fault)

lemma getComponentApi_Some:
  assumes "getComponentApi fetch load componentName = Inr (Some api)"
  shows "props api \<noteq> [] \<or> events api \<noteq> []"
  using assms by (auto simp: getComponentApi_cases split: sum.splits if_splits)

text \<open>The loop over the links.\<close>

lemma component_href:
  assumes "sel_nav_component_links l"
  shows "attribute ''href'' (elem l) = Some (href_of l)"
    and "startsWith (href_of l) ''/docs/components/''"
    and "href_of l \<noteq> []"
    and "\<not> startsWith (href_of l) ''http''"
proof -
  obtain h where h: "attribute ''href'' (elem l) = Some h" "startsWith h ''/docs/components/''"
    using assms by (auto simp: sel_nav_component_links_def split: option.splits)
  then have hl: "href_of l = h" by (simp add: href_of_def)
  obtain cs where "h = CHR ''/'' # cs"
    using h(2) by (cases h) simp_all
  then show "attribute ''href'' (elem l) = Some (href_of l)"
    and "startsWith (href_of l) ''/docs/components/''"
    and "href_of l \<noteq> []"
    and "\<not> startsWith (href_of l) ''http''"
    using h hl by simp_all
qed

lemma push_component_link:
  assumes "sel_nav_component_links l"
  shows "push_component acc l = (if link_qualifies l then acc @ [link_entry l] else acc)"
  using component_href [OF assms]
  by (simp add: push_component_def link_qualifies_def link_entry_def Let_def
      endsWith_suffix trim_blank)

lemma foldl_push_component:
  "\<forall>l \<in> set ls. sel_nav_component_links l \<Longrightarrow>
     foldl push_component acc ls = acc @ map link_entry (filter link_qualifies ls)"
  by (induction ls arbitrary: acc) (simp_all add: push_component_link)

lemma link_entry_props:
  assumes "sel_nav_component_links l" "link_qualifies l"
  shows "name (link_entry l) \<noteq> []"
    and "startsWith (url (link_entry l)) ''https://www.heroui.com/docs/components/''"
proof -
  show "name (link_entry l) \<noteq> []"
    using assms(2) by (simp add: link_entry_def link_qualifies_def trim_blank)
  have "startsWith (''https://www.heroui.com'' @ href_of l)
          (''https://www.heroui.com'' @ ''/docs/components/'')"
    unfolding startsWith_same_prefix using component_href(2) [OF assms(1)] .
  then show "startsWith (url (link_entry l)) ''https://www.heroui.com/docs/components/''"
    by (simp add: link_entry_def)
qed






text \<open>The text of the API tool.\<close>

lemma apiText_has_section:
  assumes "props api \<noteq> [] \<or> events api \<noteq> []"
  shows "includes_str (apiText componentName api) ''**Props:**''
         \<or> includes_str (apiText componentName api) ''**Events:**''"
proof (cases "props api = []")
  case False
  let ?t0 = "''API for '' @ componentName @ '':'' @ backslash_n @ backslash_n"
  let ?rest = "backslash_n @ join backslash_n (map prop_line (props api)) @ backslash_n @ backslash_n
      @ (if length (events api) > 0
         then ''**Events:**'' @ backslash_n @ join backslash_n (map event_line (events api))
         else [])"
  have "apiText componentName api = ?t0 @ ''**Props:**'' @ ?rest"
    using False by (simp add: apiText_def Let_def)
  then show ?thesis
    using includes_str_append [of ?t0 "''**Props:**''" ?rest] by simp
next
  case True
  let ?t0 = "''API for '' @ componentName @ '':'' @ backslash_n @ backslash_n"
  let ?rest = "backslash_n @ join backslash_n (map event_line (events api))"
  have "apiText componentName api = ?t0 @ ''**Events:**'' @ ?rest"
    using True assms by (simp add: apiText_def Let_def)
  then show ?thesis
    using includes_str_append [of ?t0 "''**Events:**''" ?rest] by simp
qed

lemma apiText_starts: "\<exists>t. apiText componentName api = CHR ''A'' # t"
  by (simp add: apiText_def Let_def)

lemma trim_apiText: "\<exists>t. trim (apiText componentName api) = CHR ''A'' # t"
proof -
  obtain t where "apiText componentName api = CHR ''A'' # t"
    using apiText_starts by blast
  moreover have "\<not> is_ws (CHR ''A'')" by (simp add: is_ws_def)
  ultimately show ?thesis using trim_starts [of "CHR ''A''" t] by simp
qed

section \<open>Facts about the fixtures\<close>

lemma fetchHtml_serve: "fetchHtml (serve u h) u = Inr h"
  by (simp add: fetchHtml_def try_catch_def serve_def ok_def)

lemma fetchHtml_answer:
  "fetchHtml (answer st txt) u =
     (if 200 \<le> st \<and> st < 300 then Inr []
      else Inl (ScrapingError (''Failed to fetch '' @ u @ '': '' @ txt)))"
  by (simp add: fetchHtml_def try_catch_def answer_def ok_def)

lemma toLowerCase_switch: "toLowerCase ''switch'' = ''switch''"
  by (simp add: toLowerCase_def lower_char_def is_upper_def)

lemma toLowerCase_button: "toLowerCase ''button'' = ''button''"
  by (simp add: toLowerCase_def lower_char_def is_upper_def)

lemma toLowerCase_Button: "toLowerCase ''Button'' = ''button''"
  by (simp add: toLowerCase_def lower_char_def is_upper_def)

lemma toLowerCase_BUTTON: "toLowerCase ''BUTTON'' = ''button''"
  by (simp add: toLowerCase_def lower_char_def is_upper_def)

lemma toLowerCase_tab404: "toLowerCase ''tab404'' = ''tab404''"
  by (simp add: toLowerCase_def lower_char_def is_upper_def)

lemma intro_url_eq: "BASE_URL @ ''/guide/introduction'' = intro_url"
  by (simp add: BASE_URL_def intro_url_def)

lemma button_url_eq: "BASE_URL @ ''/components/'' @ ''button'' = button_url"
  by (simp add: BASE_URL_def button_url_def)

lemma switch_url_eq: "BASE_URL @ ''/components/'' @ ''switch'' = switch_url"
  by (simp add: BASE_URL_def switch_url_def)

lemma link_qualifies_code:
  "link_qualifies l
     = (trim (text_of (elem l)) \<noteq> [] \<and> \<not> endsWith (href_of l) ''/components/'')"
  by (simp add: link_qualifies_def endsWith_suffix trim_blank)

lemma components_intro_doc:
  "map link_entry (filter link_qualifies (select sel_nav_component_links intro_doc))
     = [\<lparr>name = ''Accordion'', url = ''https://www.heroui.com/docs/components/accordion''\<rparr>,
        \<lparr>name = ''Button'', url = ''https://www.heroui.com/docs/components/button''\<rparr>]"
  by (simp add: intro_doc_def select_def sel_nav_component_links_def has_ancestor_def
      link_qualifies_code link_entry_def href_of_def endsWith_def trim_def is_ws_def)

lemma getComponentList_intro:
  "getComponentList (serve intro_url page) (parsed_as intro_doc)
     = Inr [\<lparr>name = ''Accordion'', url = ''https://www.heroui.com/docs/components/accordion''\<rparr>,
            \<lparr>name = ''Button'', url = ''https://www.heroui.com/docs/components/button''\<rparr>]"
proof -
  have sel: "\<forall>l \<in> set (select sel_nav_component_links intro_doc). sel_nav_component_links l"
    by (simp add: select_def)
  show ?thesis
    unfolding getComponentList_cases intro_url_eq fetchHtml_serve
    using foldl_push_component [OF sel, of "[]"]
    by (simp add: parsed_as_def components_intro_doc)
qed

lemma examples_button_doc:
  "foldl push_example [] (select sel_component_preview button_doc)
     = [\<lparr>title = Some ''Basic Usage'', code = ''<Button>Click</Button>'', language = ''jsx''\<rparr>]"
  by (simp add: button_doc_def button_preview_def select_def sel_component_preview_def
      push_example_def prevAll_def first_def text_all_def find_in_def sel_pre_code_def
      has_ancestor_def detect_language_def attr_def pop_def or_else_def or_undefined_def
      trim_def is_ws_def Let_def)

lemma examples_button_doc2:
  "foldl push_example [] (select sel_component_preview button_doc2)
     = [\<lparr>title = Some ''Basic Usage'', code = ''<Button>Click</Button>'', language = ''jsx''\<rparr>]"
  by (simp add: button_doc2_def button_preview_def select_def sel_component_preview_def
      push_example_def prevAll_def first_def text_all_def find_in_def sel_pre_code_def
      has_ancestor_def detect_language_def attr_def pop_def or_else_def or_undefined_def
      trim_def is_ws_def Let_def)


lemma scan_api_switch_doc:
  "scan_api switch_doc =
     \<lparr>props = [\<lparr>name = ''isSelected'', type = ''boolean'',
                 description = Some ''Whether selected'', defaultValue = Some []\<rparr>],
      events = []\<rparr>"
  by (simp add: scan_api_def switch_doc_def select_def sel_h3_def scan_heading_def
      next_sibling_def first_def find_all_def find_in_def sel_tbody_tr_def sel_td_def
      has_ancestor_def push_prop_def trim_def is_ws_def toLowerCase_def lower_char_def
      is_upper_def)

lemma scan_api_events_doc:
  "scan_api events_doc =
     \<lparr>props = [],
      events = [\<lparr>name = ''onChange'', type = ''function'', description = None\<rparr>,
                \<lparr>name = ''onValueChange'', type = ''function'',
                  description = Some ''Fires on change''\<rparr>]\<rparr>"
  by (simp add: scan_api_def events_doc_def select_def sel_h3_def scan_heading_def
      next_sibling_def first_def find_all_def find_in_def sel_tbody_tr_def sel_td_def
      has_ancestor_def push_event_def trim_def is_ws_def toLowerCase_def lower_char_def
      is_upper_def)

lemma getComponentApi_switch:
  "getComponentApi (serve switch_url page) (parsed_as switch_doc) ''switch''
     = Inr (Some \<lparr>props = [\<lparr>name = ''isSelected'', type = ''boolean'',
                 description = Some ''Whether selected'', defaultValue = Some []\<rparr>],
            events = []\<rparr>)"
  unfolding getComponentApi_cases toLowerCase_switch switch_url_eq fetchHtml_serve
  by (simp add: parsed_as_def scan_api_switch_doc)

lemma cells_row_short: "find_in sel_td row_short = [Element ''td'' [] [Text ''only'']]"
  by (simp add: row_short_def find_in_def sel_td_def)

lemma cells_row_two:
  "find_in sel_td row_two
     = [Element ''td'' [] [Text '' color ''], Element ''td'' [] [Text ''string'']]"
  by (simp add: row_two_def find_in_def sel_td_def)

lemma cells_row_four:
  "find_in sel_td row_four
     = [Element ''td'' [] [Text ''isSelected''], Element ''td'' [] [Text ''boolean''],
        Element ''td'' [] [Text ''Whether selected''], Element ''td'' [] [Text []]]"
  by (simp add: row_four_def find_in_def sel_td_def)

lemma components_drift_doc:
  "map link_entry (filter link_qualifies (select sel_nav_component_links drift_doc)) = []"
  by (simp add: drift_doc_def select_def sel_nav_component_links_def has_ancestor_def
      link_qualifies_code link_entry_def href_of_def endsWith_def trim_def is_ws_def)

lemma getComponentList_drift:
  "getComponentList (serve intro_url page) (parsed_as drift_doc) = Inr []"
proof -
  have sel: "\<forall>l \<in> set (select sel_nav_component_links drift_doc). sel_nav_component_links l"
    by (simp add: select_def)
  show ?thesis
    unfolding getComponentList_cases intro_url_eq fetchHtml_serve
    using foldl_push_component [OF sel, of "[]"]
    by (simp add: parsed_as_def components_drift_doc)
qed

lemma links_as_specified_drift_doc:
  "links_as_specified drift_doc
     = [Element ''a'' [(''href'', ''/docs/components/layout/components/'')] [Text ''Layout''],
        Element ''a'' [(''href'', ''/docs/components/image'')]
          [Element ''img'' [(''src'', ''/image.png'')] []],
        Element ''a'' [(''href'', ''/docs/components/card'')] [Text ''Card'']]"
  by (simp add: links_as_specified_def drift_doc_def)

lemma examples_gallery_doc:
  "foldl push_example [] (select sel_component_preview gallery_doc)
     = [\<lparr>title = Some ''Second'', code = ''<A/>'', language = ''tsx''\<rparr>,
        \<lparr>title = Some ''Second'', code = ''b()'', language = ''hljs''\<rparr>,
        \<lparr>title = None, code = ''c'', language = ''typescript''\<rparr>,
        \<lparr>title = None, code = ''d'', language = ''typescript''\<rparr>,
        \<lparr>title = None, code = ''ef'', language = ''json''\<rparr>]"
  by (simp add: gallery_doc_def select_def sel_component_preview_def
      push_example_def prevAll_def first_def text_all_def find_in_def sel_pre_code_def
      has_ancestor_def detect_language_def attr_def pop_def or_else_def or_undefined_def
      trim_def is_ws_def Let_def)




text \<open>A server that answers every request with status 200 and an empty body.\<close>

lemma getComponentList_answered:
  "getComponentList (answer 200 ''OK'') (parsed_as doc)
     = Inr (foldl push_component [] (select sel_nav_component_links doc))"
  by (simp add: getComponentList_cases fetchHtml_answer parsed_as_def)

lemma getComponentExamples_answered:
  "getComponentExamples (answer 200 ''OK'') (parsed_as doc) a
     = Inr (foldl push_example [] (select sel_component_preview doc))"
  by (simp add: getComponentExamples_cases fetchHtml_answer parsed_as_def)

lemma getComponentApi_answered:
  "getComponentApi (answer 200 ''OK'') (parsed_as doc) a
     = (if props (scan_api doc) = [] \<and> events (scan_api doc) = []
        then Inr None else Inr (Some (scan_api doc)))"
  by (simp add: getComponentApi_cases fetchHtml_answer parsed_as_def)

lemma links_intro_doc:
  "foldl push_component [] (select sel_nav_component_links intro_doc)
     = [\<lparr>name = ''Accordion'', url = ''https://www.heroui.com/docs/components/accordion''\<rparr>,
        \<lparr>name = ''Button'', url = ''https://www.heroui.com/docs/components/button''\<rparr>]"
proof -
  have sel: "\<forall>l \<in> set (select sel_nav_component_links intro_doc). sel_nav_component_links l"
    by (simp add: select_def)
  show ?thesis
    using foldl_push_component [OF sel, of "[]"] by (simp add: components_intro_doc)
qed

lemma nothing_in_plain_doc:
  "select sel_nav_component_links plain_doc = []"
  "select sel_component_preview plain_doc = []"
  "scan_api plain_doc = \<lparr>props = [], events = []\<rparr>"
  by (simp_all add: plain_doc_def select_def sel_nav_component_links_def
      sel_component_preview_def scan_api_def sel_h3_def)

lemma nothing_to_list_elsewhere:
  "select sel_nav_component_links button_doc = []"
  "select sel_nav_component_links switch_doc = []"
  by (simp_all add: button_doc_def button_preview_def switch_doc_def select_def
      sel_nav_component_links_def has_ancestor_def)

section \<open>Every call is answered with an envelope\<close>

text \<open>
  C1. For each of the three tools and each outcome of its scraper function the
  handler returns an envelope and throws nothing. A fault is logged at the error
  level and gives an error envelope: the error flag and one text, which carries the
  fault's message. An empty or absent result gives a success envelope with one fixed
  explanatory text and no error flag. A result with entries gives a success envelope
  with content and no error flag: for the directory the banner and one line per
  entry, for the examples one code entry per example with its title, code and
  language, in the same order, and for the API the trimmed API text, which is not
  empty.
\<close>

theorem tools_always_return_an_envelope:
  "(case getComponentList fetch load of
      Inl error \<Rightarrow>
        fst (get_heroui_component_list fetch load)
          = \<lparr>isError = True,
             content = [TextContent (''Error fetching component list: '' @ error_message error)]\<rparr>
        \<and> error_envelope (fst (get_heroui_component_list fetch load))
        \<and> map level (snd (get_heroui_component_list fetch load)) = [''info'', ''error'']
    | Inr components \<Rightarrow>
        if components = []
        then fst (get_heroui_component_list fetch load)
               = \<lparr>isError = False,
                  content = [TextContent
                    ''Could not find any components. The documentation structure might have changed.'']\<rparr>
             \<and> explanation_envelope (fst (get_heroui_component_list fetch load))
        else fst (get_heroui_component_list fetch load)
               = \<lparr>isError = False,
                  content = [TextContent
                    (''Available HeroUI Components:'' @ [CHR 0x5C, CHR ''n'']
                     @ join [CHR 0x5C, CHR ''n'']
                         (map (\<lambda>c. ''- '' @ name c @ '' ('' @ url c @ '')'') components))]\<rparr>
             \<and> content_envelope (fst (get_heroui_component_list fetch load)))
   \<and> (case getComponentExamples fetch load componentName of
      Inl error \<Rightarrow>
        fst (get_heroui_component_examples fetch load componentName)
          = \<lparr>isError = True,
             content = [TextContent (''Error fetching examples for '' @ componentName @ '': ''
                                     @ error_message error)]\<rparr>
        \<and> error_envelope (fst (get_heroui_component_examples fetch load componentName))
        \<and> map level (snd (get_heroui_component_examples fetch load componentName))
            = [''info'', ''error'']
    | Inr examples \<Rightarrow>
        if examples = []
        then fst (get_heroui_component_examples fetch load componentName)
               = \<lparr>isError = False,
                  content = [TextContent
                    (''No examples found for component '' @ [CHR 0x27] @ componentName @ [CHR 0x27]
                     @ ''. Check the component name or the documentation structure.'')]\<rparr>
             \<and> explanation_envelope (fst (get_heroui_component_examples fetch load componentName))
        else fst (get_heroui_component_examples fetch load componentName)
               = \<lparr>isError = False,
                  content = map (\<lambda>ex. CodeContent (title ex) (code ex) (language ex)) examples\<rparr>
             \<and> content_envelope (fst (get_heroui_component_examples fetch load componentName))
             \<and> length (content (fst (get_heroui_component_examples fetch load componentName)))
                 = length examples)
   \<and> (case getComponentApi fetch load componentName of
      Inl error \<Rightarrow>
        fst (get_heroui_component_api fetch load componentName)
          = \<lparr>isError = True,
             content = [TextContent (''Error fetching API for '' @ componentName @ '': ''
                                     @ error_message error)]\<rparr>
        \<and> error_envelope (fst (get_heroui_component_api fetch load componentName))
        \<and> map level (snd (get_heroui_component_api fetch load componentName))
            = [''info'', ''error'']
    | Inr None \<Rightarrow>
        fst (get_heroui_component_api fetch load componentName)
          = \<lparr>isError = False,
             content = [TextContent
               (''No API documentation found for component '' @ [CHR 0x27] @ componentName
                @ [CHR 0x27] @ ''. Check the component name or the documentation structure.'')]\<rparr>
        \<and> explanation_envelope (fst (get_heroui_component_api fetch load componentName))
    | Inr (Some api) \<Rightarrow>
        fst (get_heroui_component_api fetch load componentName)
          = \<lparr>isError = False, content = [TextContent (trim (apiText componentName api))]\<rparr>
        \<and> trim (apiText componentName api) \<noteq> []
        \<and> content_envelope (fst (get_heroui_component_api fetch load componentName)))"
proof -
  have line: "component_line = (\<lambda>c. ''- '' @ name c @ '' ('' @ url c @ '')'')"
    by (rule ext) (simp add: component_line_def)
  have p1: "case getComponentList fetch load of
      Inl error \<Rightarrow>
        fst (get_heroui_component_list fetch load)
          = \<lparr>isError = True,
             content = [TextContent (''Error fetching component list: '' @ error_message error)]\<rparr>
        \<and> error_envelope (fst (get_heroui_component_list fetch load))
        \<and> map level (snd (get_heroui_component_list fetch load)) = [''info'', ''error'']
    | Inr components \<Rightarrow>
        if components = []
        then fst (get_heroui_component_list fetch load)
               = \<lparr>isError = False,
                  content = [TextContent
                    ''Could not find any components. The documentation structure might have changed.'']\<rparr>
             \<and> explanation_envelope (fst (get_heroui_component_list fetch load))
        else fst (get_heroui_component_list fetch load)
               = \<lparr>isError = False,
                  content = [TextContent
                    (''Available HeroUI Components:'' @ [CHR 0x5C, CHR ''n'']
                     @ join [CHR 0x5C, CHR ''n'']
                         (map (\<lambda>c. ''- '' @ name c @ '' ('' @ url c @ '')'') components))]\<rparr>
             \<and> content_envelope (fst (get_heroui_component_list fetch load))"
    by (simp add: get_heroui_component_list_def error_envelope_def explanation_envelope_def
        content_envelope_def single_text_def log_info_def log_error_def Let_def
        componentListText_def line backslash_n_def
        split: sum.splits)
  have p2: "case getComponentExamples fetch load componentName of
      Inl error \<Rightarrow>
        fst (get_heroui_component_examples fetch load componentName)
          = \<lparr>isError = True,
             content = [TextContent (''Error fetching examples for '' @ componentName @ '': ''
                                     @ error_message error)]\<rparr>
        \<and> error_envelope (fst (get_heroui_component_examples fetch load componentName))
        \<and> map level (snd (get_heroui_component_examples fetch load componentName))
            = [''info'', ''error'']
    | Inr examples \<Rightarrow>
        if examples = []
        then fst (get_heroui_component_examples fetch load componentName)
               = \<lparr>isError = False,
                  content = [TextContent
                    (''No examples found for component '' @ [CHR 0x27] @ componentName @ [CHR 0x27]
                     @ ''. Check the component name or the documentation structure.'')]\<rparr>
             \<and> explanation_envelope (fst (get_heroui_component_examples fetch load componentName))
        else fst (get_heroui_component_examples fetch load componentName)
               = \<lparr>isError = False,
                  content = map (\<lambda>ex. CodeContent (title ex) (code ex) (language ex)) examples\<rparr>
             \<and> content_envelope (fst (get_heroui_component_examples fetch load componentName))
             \<and> length (content (fst (get_heroui_component_examples fetch load componentName)))
                 = length examples"
    by (simp add: get_heroui_component_examples_def error_envelope_def explanation_envelope_def
        content_envelope_def single_text_def log_info_def log_error_def Let_def
        split: sum.splits)
  have t: "or_else (trim (apiText componentName api)) fallback = trim (apiText componentName api)
           \<and> trim (apiText componentName api) \<noteq> []" for api fallback
    using trim_apiText [of componentName api] by (auto simp: or_else_def)
  have p3: "case getComponentApi fetch load componentName of
      Inl error \<Rightarrow>
        fst (get_heroui_component_api fetch load componentName)
          = \<lparr>isError = True,
             content = [TextContent (''Error fetching API for '' @ componentName @ '': ''
                                     @ error_message error)]\<rparr>
        \<and> error_envelope (fst (get_heroui_component_api fetch load componentName))
        \<and> map level (snd (get_heroui_component_api fetch load componentName))
            = [''info'', ''error'']
    | Inr None \<Rightarrow>
        fst (get_heroui_component_api fetch load componentName)
          = \<lparr>isError = False,
             content = [TextContent
               (''No API documentation found for component '' @ [CHR 0x27] @ componentName
                @ [CHR 0x27] @ ''. Check the component name or the documentation structure.'')]\<rparr>
        \<and> explanation_envelope (fst (get_heroui_component_api fetch load componentName))
    | Inr (Some api) \<Rightarrow>
        fst (get_heroui_component_api fetch load componentName)
          = \<lparr>isError = False, content = [TextContent (trim (apiText componentName api))]\<rparr>
        \<and> trim (apiText componentName api) \<noteq> []
        \<and> content_envelope (fst (get_heroui_component_api fetch load componentName))"
    by (simp add: get_heroui_component_api_def error_envelope_def explanation_envelope_def
        content_envelope_def single_text_def log_info_def log_error_def Let_def t
        split: sum.splits option.splits)
  from p1 p2 p3 show ?thesis by (simp only: simp_thms)
qed

text \<open>
  The three outcomes of each tool: a server that answers every request with status
  500; a server that answers with status 200 and a page without links, preview
  containers and tables; and the same server with the introduction page, the button
  page and the switch page.
\<close>

theorem tools_always_return_an_envelope_witness:
  "fst (get_heroui_component_list (answer 500 ''Internal Server Error'') (parsed_as plain_doc))
     = \<lparr>isError = True,
        content = [TextContent
          (''Error fetching component list: Failed to get component list: ''
           @ ''Failed to fetch https://www.heroui.com/docs/guide/introduction: Internal Server Error'')]\<rparr>
   \<and> fst (get_heroui_component_examples (answer 500 ''Internal Server Error'')
            (parsed_as plain_doc) ''button'')
     = \<lparr>isError = True,
        content = [TextContent
          (''Error fetching examples for button: ''
           @ ''Failed to fetch https://www.heroui.com/docs/components/button: Internal Server Error'')]\<rparr>
   \<and> fst (get_heroui_component_api (answer 500 ''Internal Server Error'')
            (parsed_as plain_doc) ''button'')
     = \<lparr>isError = True,
        content = [TextContent
          (''Error fetching API for button: ''
           @ ''Failed to fetch https://www.heroui.com/docs/components/button: Internal Server Error'')]\<rparr>
   \<and> fst (get_heroui_component_list (answer 200 ''OK'') (parsed_as plain_doc))
     = \<lparr>isError = False,
        content = [TextContent
          ''Could not find any components. The documentation structure might have changed.'']\<rparr>
   \<and> fst (get_heroui_component_examples (answer 200 ''OK'') (parsed_as plain_doc) ''button'')
     = \<lparr>isError = False,
        content = [TextContent
          (''No examples found for component '' @ [CHR 0x27] @ ''button'' @ [CHR 0x27]
           @ ''. Check the component name or the documentation structure.'')]\<rparr>
   \<and> fst (get_heroui_component_api (answer 200 ''OK'') (parsed_as plain_doc) ''button'')
     = \<lparr>isError = False,
        content = [TextContent
          (''No API documentation found for component '' @ [CHR 0x27] @ ''button'' @ [CHR 0x27]
           @ ''. Check the component name or the documentation structure.'')]\<rparr>
   \<and> fst (get_heroui_component_list (answer 200 ''OK'') (parsed_as intro_doc))
     = \<lparr>isError = False,
        content = [TextContent
          (''Available HeroUI Components:'' @ [CHR 0x5C, CHR ''n'']
           @ ''- Accordion (https://www.heroui.com/docs/components/accordion)''
           @ [CHR 0x5C, CHR ''n'']
           @ ''- Button (https://www.heroui.com/docs/components/button)'')]\<rparr>
   \<and> fst (get_heroui_component_examples (answer 200 ''OK'') (parsed_as gallery_doc) ''button'')
     = \<lparr>isError = False,
        content = [CodeContent (Some ''Second'') ''<A/>'' ''tsx'',
                   CodeContent (Some ''Second'') ''b()'' ''hljs'',
                   CodeContent None ''c'' ''typescript'',
                   CodeContent None ''d'' ''typescript'',
                   CodeContent None ''ef'' ''json'']\<rparr>
   \<and> fst (get_heroui_component_api (answer 200 ''OK'') (parsed_as switch_doc) ''switch'')
     = \<lparr>isError = False,
        content = [TextContent
          (''API for switch:'' @ [CHR 0x5C, CHR ''n'', CHR 0x5C, CHR ''n'']
           @ ''**Props:**'' @ [CHR 0x5C, CHR ''n'']
           @ ''- `isSelected`: `boolean` - Whether selected''
           @ [CHR 0x5C, CHR ''n'', CHR 0x5C, CHR ''n''])]\<rparr>"
proof -
  have t: "trim (apiText ''switch'' \<lparr>props = [\<lparr>name = ''isSelected'', type = ''boolean'',
                 description = Some ''Whether selected'', defaultValue = Some []\<rparr>],
            events = []\<rparr>)
      = ''API for switch:'' @ [CHR 0x5C, CHR ''n'', CHR 0x5C, CHR ''n'']
           @ ''**Props:**'' @ [CHR 0x5C, CHR ''n'']
           @ ''- `isSelected`: `boolean` - Whether selected''
           @ [CHR 0x5C, CHR ''n'', CHR 0x5C, CHR ''n'']"
    by (simp add: apiText_def prop_line_def backslash_n_def trim_def is_ws_def)
  note faults = tools_always_return_an_envelope
    [of "answer 500 ''Internal Server Error''" "parsed_as plain_doc" "''button''"]
  note blank = tools_always_return_an_envelope
    [of "answer 200 ''OK''" "parsed_as plain_doc" "''button''"]
  note directory = tools_always_return_an_envelope
    [of "answer 200 ''OK''" "parsed_as intro_doc" "''button''"]
  note gallery = tools_always_return_an_envelope
    [of "answer 200 ''OK''" "parsed_as gallery_doc" "''button''"]
  note switch = tools_always_return_an_envelope
    [of "answer 200 ''OK''" "parsed_as switch_doc" "''switch''"]
  have f: "fst (get_heroui_component_list (answer 500 ''Internal Server Error'') (parsed_as plain_doc))
     = \<lparr>isError = True,
        content = [TextContent
          (''Error fetching component list: Failed to get component list: ''
           @ ''Failed to fetch https://www.heroui.com/docs/guide/introduction: Internal Server Error'')]\<rparr>
   \<and> fst (get_heroui_component_examples (answer 500 ''Internal Server Error'')
            (parsed_as plain_doc) ''button'')
     = \<lparr>isError = True,
        content = [TextContent
          (''Error fetching examples for button: ''
           @ ''Failed to fetch https://www.heroui.com/docs/components/button: Internal Server Error'')]\<rparr>
   \<and> fst (get_heroui_component_api (answer 500 ''Internal Server Error'')
            (parsed_as plain_doc) ''button'')
     = \<lparr>isError = True,
        content = [TextContent
          (''Error fetching API for button: ''
           @ ''Failed to fetch https://www.heroui.com/docs/components/button: Internal Server Error'')]\<rparr>"
    using faults
    by (simp add: getComponentList_cases getComponentExamples_cases getComponentApi_cases
        fetchHtml_answer toLowerCase_button BASE_URL_def)
  have n: "fst (get_heroui_component_list (answer 200 ''OK'') (parsed_as plain_doc))
     = \<lparr>isError = False,
        content = [TextContent
          ''Could not find any components. The documentation structure might have changed.'']\<rparr>
   \<and> fst (get_heroui_component_examples (answer 200 ''OK'') (parsed_as plain_doc) ''button'')
     = \<lparr>isError = False,
        content = [TextContent
          (''No examples found for component '' @ [CHR 0x27] @ ''button'' @ [CHR 0x27]
           @ ''. Check the component name or the documentation structure.'')]\<rparr>
   \<and> fst (get_heroui_component_api (answer 200 ''OK'') (parsed_as plain_doc) ''button'')
     = \<lparr>isError = False,
        content = [TextContent
          (''No API documentation found for component '' @ [CHR 0x27] @ ''button'' @ [CHR 0x27]
           @ ''. Check the component name or the documentation structure.'')]\<rparr>"
    using blank
    by (simp add: getComponentList_answered getComponentExamples_answered
        getComponentApi_answered nothing_in_plain_doc)
  have d: "fst (get_heroui_component_list (answer 200 ''OK'') (parsed_as intro_doc))
     = \<lparr>isError = False,
        content = [TextContent
          (''Available HeroUI Components:'' @ [CHR 0x5C, CHR ''n'']
           @ ''- Accordion (https://www.heroui.com/docs/components/accordion)''
           @ [CHR 0x5C, CHR ''n'']
           @ ''- Button (https://www.heroui.com/docs/components/button)'')]\<rparr>"
    using directory [THEN conjunct1]
    by (simp add: getComponentList_answered links_intro_doc)
  have g: "fst (get_heroui_component_examples (answer 200 ''OK'') (parsed_as gallery_doc) ''button'')
     = \<lparr>isError = False,
        content = [CodeContent (Some ''Second'') ''<A/>'' ''tsx'',
                   CodeContent (Some ''Second'') ''b()'' ''hljs'',
                   CodeContent None ''c'' ''typescript'',
                   CodeContent None ''d'' ''typescript'',
                   CodeContent None ''ef'' ''json'']\<rparr>"
    using gallery [THEN conjunct2, THEN conjunct1]
    by (simp add: getComponentExamples_answered examples_gallery_doc)
  have s: "fst (get_heroui_component_api (answer 200 ''OK'') (parsed_as switch_doc) ''switch'')
     = \<lparr>isError = False,
        content = [TextContent
          (''API for switch:'' @ [CHR 0x5C, CHR ''n'', CHR 0x5C, CHR ''n'']
           @ ''**Props:**'' @ [CHR 0x5C, CHR ''n'']
           @ ''- `isSelected`: `boolean` - Whether selected''
           @ [CHR 0x5C, CHR ''n'', CHR 0x5C, CHR ''n''])]\<rparr>"
    using switch [THEN conjunct2, THEN conjunct2]
    by (simp add: getComponentApi_answered scan_api_switch_doc t)
  from f n d g s show ?thesis by (simp only: simp_thms)
qed

section \<open>A page that does not exist\<close>

text \<open>
  C2. The claim: for \<^verbatim>\<open>getComponentExamples\<close> and \<^verbatim>\<open>getComponentApi\<close> a fetch that
  fails because the page does not exist gives the empty or absent result, and every
  other fault is thrown. The code decides by looking for \<^verbatim>\<open>404\<close> in the message of
  the fault, which is made of the URL and the status text. A server that answers the
  page of the component button with status 404 and status text Not Found makes both
  functions throw; a server that answers with status 500 makes both return the empty or
  absent result when the component name contains 404.
\<close>

theorem page_not_found_is_thrown:
  "getComponentExamples (answer 404 ''Not Found'') load ''button''
     = Inl (ScrapingError
         ''Failed to fetch https://www.heroui.com/docs/components/button: Not Found'')
   \<and> getComponentApi (answer 404 ''Not Found'') load ''button''
     = Inl (ScrapingError
         ''Failed to fetch https://www.heroui.com/docs/components/button: Not Found'')
   \<and> getComponentExamples (answer 500 ''Internal Server Error'') load ''tab404'' = Inr []
   \<and> getComponentApi (answer 500 ''Internal Server Error'') load ''tab404'' = Inr None"
  by (simp add: getComponentExamples_cases getComponentApi_cases fetchHtml_answer
      toLowerCase_button toLowerCase_tab404 BASE_URL_def)

section \<open>The result of getComponentApi\<close>

text \<open>
  C3. Once the page has been fetched, \<^verbatim>\<open>getComponentApi\<close> returns the absent value
  exactly when the scan of the headings collected no prop and no event. When one of
  the two sequences is not empty the collected value is returned as it is, the empty
  sequence kept.
\<close>

theorem getComponentApi_absent_iff_both_empty:
  assumes "fetchHtml fetch (BASE_URL @ ''/components/'' @ toLowerCase componentName) = Inr html"
  shows "(getComponentApi fetch load componentName = Inr None
            \<longleftrightarrow> props (scan_api (load html)) = [] \<and> events (scan_api (load html)) = [])
         \<and> (props (scan_api (load html)) \<noteq> [] \<or> events (scan_api (load html)) \<noteq> []
            \<longrightarrow> getComponentApi fetch load componentName = Inr (Some (scan_api (load html))))"
  using assms by (simp add: getComponentApi_def try_catch_def Let_def)

text \<open>The switch page has a prop and no event: the value comes back with its empty
  sequence of events.\<close>

theorem getComponentApi_absent_iff_both_empty_witness:
  "fetchHtml (serve switch_url ''<html>'') (BASE_URL @ ''/components/'' @ toLowerCase ''switch'')
     = Inr ''<html>''
   \<and> props (scan_api (parsed_as switch_doc ''<html>'')) \<noteq> []
   \<and> events (scan_api (parsed_as switch_doc ''<html>'')) = []
   \<and> getComponentApi (serve switch_url ''<html>'') (parsed_as switch_doc) ''switch''
       = Inr (Some (scan_api switch_doc))"
proof -
  have h: "fetchHtml (serve switch_url ''<html>'')
             (BASE_URL @ ''/components/'' @ toLowerCase ''switch'') = Inr ''<html>''"
    unfolding toLowerCase_switch switch_url_eq by (rule fetchHtml_serve)
  show ?thesis
    using h getComponentApi_absent_iff_both_empty [OF h, of "parsed_as switch_doc"]
    by (simp add: scan_api_switch_doc parsed_as_def)
qed

section \<open>The fields of a table row\<close>

text \<open>
  C4, as amended. A row with fewer than two cells adds nothing, to the props and to
  the events. A row with exactly two cells gives the name and the type, with the
  description and the default value absent. A row with four cells gives all four
  fields, each the trimmed text of its cell. On the switch page, whose fourth cell is
  empty, the default value of the prop is therefore present and is the empty string.
  On the events page the row of one cell is skipped, the row of two cells gives an
  event without description and the row of three cells an event with one.
\<close>

theorem api_row_fields:
  "(length (find_in sel_td tr_short) < 2 \<longrightarrow>
        push_prop ps tr_short = ps \<and> push_event es tr_short = es)
   \<and> (find_in sel_td tr_two = [cn, ct] \<longrightarrow>
        push_prop ps tr_two
          = ps @ [\<lparr>name = trim (text_of cn), type = trim (text_of ct),
                   description = None, defaultValue = None\<rparr>]
        \<and> push_event es tr_two
          = es @ [\<lparr>name = trim (text_of cn), type = trim (text_of ct), description = None\<rparr>])
   \<and> (find_in sel_td tr_four = [dn, dt, dd, dv] \<longrightarrow>
        push_prop ps tr_four
          = ps @ [\<lparr>name = trim (text_of dn), type = trim (text_of dt),
                   description = Some (trim (text_of dd)),
                   defaultValue = Some (trim (text_of dv))\<rparr>]
        \<and> push_event es tr_four
          = es @ [\<lparr>name = trim (text_of dn), type = trim (text_of dt),
                   description = Some (trim (text_of dd))\<rparr>])
   \<and> scan_api switch_doc
       = \<lparr>props = [\<lparr>name = ''isSelected'', type = ''boolean'',
                    description = Some ''Whether selected'', defaultValue = Some []\<rparr>],
          events = []\<rparr>
   \<and> scan_api events_doc
       = \<lparr>props = [],
          events = [\<lparr>name = ''onChange'', type = ''function'', description = None\<rparr>,
                    \<lparr>name = ''onValueChange'', type = ''function'',
                      description = Some ''Fires on change''\<rparr>]\<rparr>"
  by (simp add: push_prop_def push_event_def Let_def scan_api_switch_doc scan_api_events_doc)

text \<open>Rows with one, two and four cells.\<close>

theorem api_row_fields_witness:
  "length (find_in sel_td row_short) < 2
   \<and> push_prop [] row_short = []
   \<and> push_event [] row_short = []
   \<and> find_in sel_td row_two
       = [Element ''td'' [] [Text '' color ''], Element ''td'' [] [Text ''string'']]
   \<and> push_prop [] row_two
       = [\<lparr>name = ''color'', type = ''string'', description = None, defaultValue = None\<rparr>]
   \<and> push_event [] row_two = [\<lparr>name = ''color'', type = ''string'', description = None\<rparr>]
   \<and> find_in sel_td row_four
       = [Element ''td'' [] [Text ''isSelected''], Element ''td'' [] [Text ''boolean''],
          Element ''td'' [] [Text ''Whether selected''], Element ''td'' [] [Text []]]
   \<and> push_prop [] row_four
       = [\<lparr>name = ''isSelected'', type = ''boolean'',
           description = Some ''Whether selected'', defaultValue = Some []\<rparr>]"
  using api_row_fields
    [of row_short "[]" "[]" row_two "Element ''td'' [] [Text '' color '']"
        "Element ''td'' [] [Text ''string'']" row_four
        "Element ''td'' [] [Text ''isSelected'']" "Element ''td'' [] [Text ''boolean'']"
        "Element ''td'' [] [Text ''Whether selected'']" "Element ''td'' [] [Text []]"]
  by (simp add: cells_row_short cells_row_two cells_row_four trim_def is_ws_def)

text \<open>
  The claim as it was stated has the default value absent on the switch page. The
  code returns the empty string there.
\<close>

theorem switch_defaultValue_counterexample:
  "getComponentApi (serve switch_url ''<html>'') (parsed_as switch_doc) ''switch''
     = Inr (Some \<lparr>props = [\<lparr>name = ''isSelected'', type = ''boolean'',
                 description = Some ''Whether selected'', defaultValue = Some []\<rparr>],
            events = []\<rparr>)
   \<and> getComponentApi (serve switch_url ''<html>'') (parsed_as switch_doc) ''switch''
     \<noteq> Inr (Some \<lparr>props = [\<lparr>name = ''isSelected'', type = ''boolean'',
                 description = Some ''Whether selected'', defaultValue = None\<rparr>],
            events = []\<rparr>)"
  by (simp add: getComponentApi_switch)

section \<open>The texts of the tools\<close>

text \<open>
  C5. The claim: the lines of the directory listing and the lines and sections of the
  API text are joined by newlines, and trailing white space is trimmed. The code joins
  with a backslash followed by the letter n. For the introduction page the listing is
  one line that holds these two characters between the banner and the entries, and
  differs from the listing as specified; for the switch page the API text holds no
  line feed either and ends with the two characters twice, which \<^verbatim>\<open>trim\<close> leaves
  in place.
\<close>

theorem listing_joined_by_backslash_n:
  "content (fst (get_heroui_component_list (serve intro_url ''<html>'') (parsed_as intro_doc)))
     = [TextContent
          (''Available HeroUI Components:'' @ [CHR 0x5C, CHR ''n'']
           @ ''- Accordion (https://www.heroui.com/docs/components/accordion)''
           @ [CHR 0x5C, CHR ''n'']
           @ ''- Button (https://www.heroui.com/docs/components/button)'')]
   \<and> content (fst (get_heroui_component_api (serve switch_url ''<html>'')
                     (parsed_as switch_doc) ''switch''))
     = [TextContent
          (''API for switch:'' @ [CHR 0x5C, CHR ''n'', CHR 0x5C, CHR ''n'']
           @ ''**Props:**'' @ [CHR 0x5C, CHR ''n'']
           @ ''- `isSelected`: `boolean` - Whether selected''
           @ [CHR 0x5C, CHR ''n'', CHR 0x5C, CHR ''n''])]
   \<and> content (fst (get_heroui_component_list (serve intro_url ''<html>'') (parsed_as intro_doc)))
     \<noteq> [TextContent
          (listing_as_specified
             [\<lparr>name = ''Accordion'', url = ''https://www.heroui.com/docs/components/accordion''\<rparr>,
              \<lparr>name = ''Button'', url = ''https://www.heroui.com/docs/components/button''\<rparr>])]"
proof -
  have a: "content (fst (get_heroui_component_list (serve intro_url ''<html>'') (parsed_as intro_doc)))
     = [TextContent
          (''Available HeroUI Components:'' @ [CHR 0x5C, CHR ''n'']
           @ ''- Accordion (https://www.heroui.com/docs/components/accordion)''
           @ [CHR 0x5C, CHR ''n'']
           @ ''- Button (https://www.heroui.com/docs/components/button)'')]"
    by (simp add: get_heroui_component_list_def getComponentList_intro componentListText_def
        component_line_def backslash_n_def)
  have t: "apiText ''switch'' \<lparr>props = [\<lparr>name = ''isSelected'', type = ''boolean'',
                 description = Some ''Whether selected'', defaultValue = Some []\<rparr>],
            events = []\<rparr>
      = ''API for switch:'' @ [CHR 0x5C, CHR ''n'', CHR 0x5C, CHR ''n'']
           @ ''**Props:**'' @ [CHR 0x5C, CHR ''n'']
           @ ''- `isSelected`: `boolean` - Whether selected''
           @ [CHR 0x5C, CHR ''n'', CHR 0x5C, CHR ''n'']"
    by (simp add: apiText_def prop_line_def backslash_n_def)
  have b: "content (fst (get_heroui_component_api (serve switch_url ''<html>'')
                     (parsed_as switch_doc) ''switch''))
     = [TextContent
          (''API for switch:'' @ [CHR 0x5C, CHR ''n'', CHR 0x5C, CHR ''n'']
           @ ''**Props:**'' @ [CHR 0x5C, CHR ''n'']
           @ ''- `isSelected`: `boolean` - Whether selected''
           @ [CHR 0x5C, CHR ''n'', CHR 0x5C, CHR ''n''])]"
    unfolding get_heroui_component_api_def getComponentApi_switch
    by (simp add: t or_else_def trim_def is_ws_def)
  have c: "content (fst (get_heroui_component_list (serve intro_url ''<html>'') (parsed_as intro_doc)))
     \<noteq> [TextContent
          (listing_as_specified
             [\<lparr>name = ''Accordion'', url = ''https://www.heroui.com/docs/components/accordion''\<rparr>,
              \<lparr>name = ''Button'', url = ''https://www.heroui.com/docs/components/button''\<rparr>])]"
    unfolding a by (simp add: listing_as_specified_def line_feed_def)
  show ?thesis
    by (intro conjI) (rule a, rule b, rule c)
qed

section \<open>The directory of components\<close>

text \<open>
  C6, as amended. Once the introduction page has been fetched, \<^verbatim>\<open>getComponentList\<close>
  scans the hyperlink elements that lie inside a navigation element (\<^verbatim>\<open>nav\<close>) and
  whose destination begins with \<^verbatim>\<open>/docs/components/\<close>. It leaves out the links
  whose destination ends with \<^verbatim>\<open>/components/\<close>, the root components link among
  them, and the links whose text is blank, and returns one entry for each of the
  others, in document order. The name of an entry is the text of the link without the
  white space at its two ends, and is not empty; its URL is the destination after the
  origin \<^verbatim>\<open>https://www.heroui.com\<close>. When no link is scanned the result is the
  empty sequence, not a fault.
\<close>

theorem getComponentList_entries:
  assumes "fetchHtml fetch (BASE_URL @ ''/guide/introduction'') = Inr html"
  shows "getComponentList fetch load
           = Inr (map link_entry
                   (filter link_qualifies (select sel_nav_component_links (load html))))
         \<and> (\<forall>l. l \<in> set (select sel_nav_component_links (load html))
                 \<longleftrightarrow> l \<in> set (walk [] [] (load html))
                     \<and> is_tag ''a'' (elem l)
                     \<and> (\<exists>h. attribute ''href'' (elem l) = Some h \<and> prefix ''/docs/components/'' h)
                     \<and> (\<exists>n \<in> set (ancestors l). is_tag ''nav'' n))
         \<and> subseq (map elem (select sel_nav_component_links (load html)))
                  (concat (map elements (load html)))
         \<and> (\<forall>l \<in> set (filter link_qualifies (select sel_nav_component_links (load html))).
               name (link_entry l) \<noteq> []
               \<and> (\<exists>a b. text_of (elem l) = a @ name (link_entry l) @ b
                        \<and> list_all is_ws a \<and> list_all is_ws b)
               \<and> \<not> is_ws (hd (name (link_entry l)))
               \<and> \<not> is_ws (last (name (link_entry l)))
               \<and> attribute ''href'' (elem l) = Some (href_of l)
               \<and> url (link_entry l) = ''https://www.heroui.com'' @ href_of l
               \<and> prefix ''https://www.heroui.com/docs/components/'' (url (link_entry l))
               \<and> \<not> suffix ''/components/'' (href_of l)
               \<and> href_of l \<noteq> ''/docs/components/'')
         \<and> (select sel_nav_component_links (load' html) = []
              \<longrightarrow> getComponentList fetch load' = Inr [])"
proof -
  have sel: "\<forall>l \<in> set (select sel_nav_component_links d). sel_nav_component_links l" for d
    by (simp add: select_def)
  have a: "getComponentList fetch ld
           = Inr (map link_entry (filter link_qualifies (select sel_nav_component_links (ld html))))" for ld
    using assms foldl_push_component [OF sel, of "[]"] by (simp add: getComponentList_cases)
  have m: "\<forall>l. l \<in> set (select sel_nav_component_links (load html))
                 \<longleftrightarrow> l \<in> set (walk [] [] (load html))
                     \<and> is_tag ''a'' (elem l)
                     \<and> (\<exists>h. attribute ''href'' (elem l) = Some h \<and> prefix ''/docs/components/'' h)
                     \<and> (\<exists>n \<in> set (ancestors l). is_tag ''nav'' n)"
    by (auto simp: select_def sel_nav_component_links_def has_ancestor_def list_ex_iff
        startsWith_prefix split: option.splits)
  have root: "suffix ''/components/'' ''/docs/components/''"
    by (rule suffixI [of _ "''/docs''"]) simp
  have one: "name (link_entry l) \<noteq> []
               \<and> (\<exists>a b. text_of (elem l) = a @ name (link_entry l) @ b
                        \<and> list_all is_ws a \<and> list_all is_ws b)
               \<and> \<not> is_ws (hd (name (link_entry l)))
               \<and> \<not> is_ws (last (name (link_entry l)))
               \<and> attribute ''href'' (elem l) = Some (href_of l)
               \<and> url (link_entry l) = ''https://www.heroui.com'' @ href_of l
               \<and> prefix ''https://www.heroui.com/docs/components/'' (url (link_entry l))
               \<and> \<not> suffix ''/components/'' (href_of l)
               \<and> href_of l \<noteq> ''/docs/components/''"
    if s: "sel_nav_component_links l" and q: "link_qualifies l" for l
  proof -
    have n: "name (link_entry l) = trim (text_of (elem l))"
      by (simp add: link_entry_def)
    have ne: "trim (text_of (elem l)) \<noteq> []"
      using q by (simp add: link_qualifies_def trim_blank)
    obtain x y where xy: "text_of (elem l) = x @ trim (text_of (elem l)) @ y"
        "list_all is_ws x" "list_all is_ws y"
        "trim (text_of (elem l)) = []
         \<or> (\<not> is_ws (hd (trim (text_of (elem l)))) \<and> \<not> is_ws (last (trim (text_of (elem l)))))"
      using trim_strips [of "text_of (elem l)"] by blast
    have ends: "\<not> is_ws (hd (trim (text_of (elem l))))" "\<not> is_ws (last (trim (text_of (elem l))))"
      using xy(4) ne by simp_all
    have ex: "\<exists>a b. text_of (elem l) = a @ trim (text_of (elem l)) @ b
                   \<and> list_all is_ws a \<and> list_all is_ws b"
      using xy(1,2,3) by blast
    have u: "url (link_entry l) = ''https://www.heroui.com'' @ href_of l"
      by (simp add: link_entry_def)
    have "prefix ''/docs/components/'' (href_of l)"
      using component_href(2) [OF s] by (simp add: startsWith_prefix)
    then have "prefix (''https://www.heroui.com'' @ ''/docs/components/'')
                 (''https://www.heroui.com'' @ href_of l)"
      by (simp only: same_prefix_prefix)
    then have p: "prefix ''https://www.heroui.com/docs/components/'' (url (link_entry l))"
      unfolding u by simp
    have ns: "\<not> suffix ''/components/'' (href_of l)"
      using q by (simp add: link_qualifies_def)
    then have nr: "href_of l \<noteq> ''/docs/components/''"
      using root by auto
    show ?thesis
      unfolding n
      using ne ex ends component_href(1) [OF s] u p ns nr
      unfolding n by (intro conjI)
  qed
  have b: "\<forall>l \<in> set (filter link_qualifies (select sel_nav_component_links (load html))).
               name (link_entry l) \<noteq> []
               \<and> (\<exists>a b. text_of (elem l) = a @ name (link_entry l) @ b
                        \<and> list_all is_ws a \<and> list_all is_ws b)
               \<and> \<not> is_ws (hd (name (link_entry l)))
               \<and> \<not> is_ws (last (name (link_entry l)))
               \<and> attribute ''href'' (elem l) = Some (href_of l)
               \<and> url (link_entry l) = ''https://www.heroui.com'' @ href_of l
               \<and> prefix ''https://www.heroui.com/docs/components/'' (url (link_entry l))
               \<and> \<not> suffix ''/components/'' (href_of l)
               \<and> href_of l \<noteq> ''/docs/components/''"
  proof
    fix l
    assume "l \<in> set (filter link_qualifies (select sel_nav_component_links (load html)))"
    then have "sel_nav_component_links l" "link_qualifies l"
      using sel [of "load html"] by simp_all
    then show "name (link_entry l) \<noteq> []
               \<and> (\<exists>a b. text_of (elem l) = a @ name (link_entry l) @ b
                        \<and> list_all is_ws a \<and> list_all is_ws b)
               \<and> \<not> is_ws (hd (name (link_entry l)))
               \<and> \<not> is_ws (last (name (link_entry l)))
               \<and> attribute ''href'' (elem l) = Some (href_of l)
               \<and> url (link_entry l) = ''https://www.heroui.com'' @ href_of l
               \<and> prefix ''https://www.heroui.com/docs/components/'' (url (link_entry l))
               \<and> \<not> suffix ''/components/'' (href_of l)
               \<and> href_of l \<noteq> ''/docs/components/''"
      by (rule one)
  qed
  have c: "subseq (map elem (select sel_nav_component_links (load html)))
                  (concat (map elements (load html)))"
    by (rule subseq_select)
  have d: "select sel_nav_component_links (load' html) = []
              \<longrightarrow> getComponentList fetch load' = Inr []"
    using a [of load'] by simp
  show ?thesis
    by (intro conjI) (rule a [of load], rule m, rule c, rule b, rule d)
qed

text \<open>
  The introduction page of the fixtures gives the entries Accordion and Button: its
  root link, its link with blank text, its external link and its link outside the
  navigation bar give none. A page without links gives the empty sequence.
\<close>

theorem getComponentList_entries_witness:
  "fetchHtml (serve intro_url ''<html>'') (BASE_URL @ ''/guide/introduction'') = Inr ''<html>''
   \<and> getComponentList (serve intro_url ''<html>'') (parsed_as intro_doc)
       = Inr [\<lparr>name = ''Accordion'', url = ''https://www.heroui.com/docs/components/accordion''\<rparr>,
              \<lparr>name = ''Button'', url = ''https://www.heroui.com/docs/components/button''\<rparr>]
   \<and> select sel_nav_component_links (parsed_as plain_doc ''<html>'') = []
   \<and> getComponentList (serve intro_url ''<html>'') (parsed_as plain_doc) = Inr []"
proof -
  have h: "fetchHtml (serve intro_url ''<html>'') (BASE_URL @ ''/guide/introduction'')
             = Inr ''<html>''"
    unfolding intro_url_eq by (rule fetchHtml_serve)
  have e: "select sel_nav_component_links (parsed_as plain_doc ''<html>'') = []"
    by (simp add: parsed_as_def nothing_in_plain_doc)
  note entries = getComponentList_entries [OF h, of "parsed_as intro_doc" "parsed_as plain_doc"]
  have first: "getComponentList (serve intro_url ''<html>'') (parsed_as intro_doc)
       = Inr [\<lparr>name = ''Accordion'', url = ''https://www.heroui.com/docs/components/accordion''\<rparr>,
              \<lparr>name = ''Button'', url = ''https://www.heroui.com/docs/components/button''\<rparr>]"
    using entries [THEN conjunct1] by (simp add: parsed_as_def components_intro_doc)
  have last: "getComponentList (serve intro_url ''<html>'') (parsed_as plain_doc) = Inr []"
    using entries [THEN conjunct2, THEN conjunct2, THEN conjunct2, THEN conjunct2] e by simp
  from h first e last show ?thesis by (simp only: simp_thms)
qed

text \<open>
  The claim as it was stated has all hyperlinks with the prefix scanned and only the
  root link left out. On the page after the change of the site three hyperlinks have
  the prefix and are not the root link: one ends with \<^verbatim>\<open>/components/\<close>, one holds
  an image and no text, one lies outside the navigation bar. The code returns no entry.
\<close>

theorem directory_links_counterexample:
  "getComponentList (serve intro_url ''<html>'') (parsed_as drift_doc) = Inr []
   \<and> map (attribute ''href'') (links_as_specified drift_doc)
       = [Some ''/docs/components/layout/components/'', Some ''/docs/components/image'',
          Some ''/docs/components/card'']
   \<and> map text_of (links_as_specified drift_doc) = [''Layout'', [], ''Card'']"
  by (simp add: getComponentList_drift links_as_specified_drift_doc)

section \<open>The examples of a component\<close>




section \<open>The argument of the component tools\<close>

text \<open>
  C8, as amended. The two tools that take a component validate their arguments as one
  required text: the call is accepted exactly when the key \<^verbatim>\<open>componentName\<close> is
  present and holds a string, and that string is passed on as it is. The empty string
  is accepted.
\<close>

theorem componentName_schema_accepts_strings:
  "componentName_schema args = Inr s \<longleftrightarrow> map_of args ''componentName'' = Some (JString s)"
  by (simp add: componentName_schema_def z_string_def split: option.splits json.splits)

text \<open>The claim as it was stated has the empty string rejected.\<close>

theorem empty_componentName_counterexample:
  "componentName_schema [(''componentName'', JString [])] = Inr []"
  by (simp add: componentName_schema_def z_string_def)

section \<open>The text of the API tool\<close>

text \<open>
  C9. A value returned by \<^verbatim>\<open>getComponentApi\<close> has a prop or an event. The text
  the API tool builds from it then holds the Props or the Events section and is not
  empty after trimming, so the tool answers with that text and never with the fallback
  \<^verbatim>\<open>No API details extracted.\<close>
\<close>

theorem api_fallback_unreachable:
  assumes "getComponentApi fetch load componentName = Inr (Some api)"
  shows "(props api \<noteq> [] \<or> events api \<noteq> [])
         \<and> (includes_str (apiText componentName api) ''**Props:**''
            \<or> includes_str (apiText componentName api) ''**Events:**'')
         \<and> trim (apiText componentName api) \<noteq> []
         \<and> fst (get_heroui_component_api fetch load componentName)
             = \<lparr>isError = False, content = [TextContent (trim (apiText componentName api))]\<rparr>
         \<and> trim (apiText componentName api) \<noteq> ''No API details extracted.''"
proof -
  have ne: "props api \<noteq> [] \<or> events api \<noteq> []"
    using assms by (rule getComponentApi_Some)
  obtain t where t: "trim (apiText componentName api) = CHR ''A'' # t"
    using trim_apiText by blast
  have "fst (get_heroui_component_api fetch load componentName)
          = \<lparr>isError = False, content = [TextContent (trim (apiText componentName api))]\<rparr>"
    using assms t by (simp add: get_heroui_component_api_def or_else_def)
  then show ?thesis
    using ne apiText_has_section [OF ne] t by simp
qed

text \<open>The switch page.\<close>

theorem api_fallback_unreachable_witness:
  "getComponentApi (serve switch_url ''<html>'') (parsed_as switch_doc) ''switch''
     = Inr (Some (scan_api switch_doc))
   \<and> props (scan_api switch_doc) \<noteq> []
   \<and> content (fst (get_heroui_component_api (serve switch_url ''<html>'')
                     (parsed_as switch_doc) ''switch''))
       = [TextContent (trim (apiText ''switch'' (scan_api switch_doc)))]
   \<and> trim (apiText ''switch'' (scan_api switch_doc)) \<noteq> []"
proof -
  have h: "getComponentApi (serve switch_url ''<html>'') (parsed_as switch_doc) ''switch''
     = Inr (Some (scan_api switch_doc))"
    by (simp add: getComponentApi_switch scan_api_switch_doc)
  show ?thesis
    using h api_fallback_unreachable [OF h] by (simp add: scan_api_switch_doc)
qed

section \<open>Letter case of the component name\<close>

text \<open>
  C10. Two component names with the same lower-case form give the same result, for
  \<^verbatim>\<open>getComponentExamples\<close> and for \<^verbatim>\<open>getComponentApi\<close>, under the
  same transport and parser: the name enters the computation through the URL only,
  which is built from its lower-case form.
\<close>

theorem same_result_for_same_lowercase:
  assumes "toLowerCase a = toLowerCase b"
  shows "getComponentExamples fetch load a = getComponentExamples fetch load b
         \<and> getComponentApi fetch load a = getComponentApi fetch load b"
  using assms by (simp add: getComponentExamples_cases getComponentApi_cases)

text \<open>The names Button and BUTTON on the button page.\<close>

theorem same_result_for_same_lowercase_witness:
  "toLowerCase ''Button'' = toLowerCase ''BUTTON''
   \<and> getComponentExamples (serve button_url ''<html>'') (parsed_as button_doc) ''Button''
       = getComponentExamples (serve button_url ''<html>'') (parsed_as button_doc) ''BUTTON''
   \<and> getComponentExamples (serve button_url ''<html>'') (parsed_as button_doc) ''BUTTON''
       = Inr [\<lparr>title = Some ''Basic Usage'', code = ''<Button>Click</Button>'', language = ''jsx''\<rparr>]
   \<and> getComponentApi (serve button_url ''<html>'') (parsed_as button_doc) ''Button''
       = getComponentApi (serve button_url ''<html>'') (parsed_as button_doc) ''BUTTON''"
proof -
  have low: "toLowerCase ''Button'' = toLowerCase ''BUTTON''"
    by (simp add: toLowerCase_Button toLowerCase_BUTTON)
  have "getComponentExamples (serve button_url ''<html>'') (parsed_as button_doc) ''BUTTON''
       = Inr [\<lparr>title = Some ''Basic Usage'', code = ''<Button>Click</Button>'', language = ''jsx''\<rparr>]"
    unfolding getComponentExamples_cases toLowerCase_BUTTON button_url_eq fetchHtml_serve
    by (simp add: parsed_as_def examples_button_doc)
  then show ?thesis
    using low same_result_for_same_lowercase
      [OF low, of "serve button_url ''<html>''" "parsed_as button_doc"]
    by simp
qed

end
